theory Spec2Isabelle
  imports Main "HOL-Library.Word"
begin

unbundle bit_operations_syntax

section \<open>The trap layer of kernel/trap.c\<close>

text \<open>
  A shallow embedding of \<^verbatim>\<open>kernel/trap.c\<close>: the registers, the current process and
  the kernel globals are fields of a machine state; every call the trap layer makes is
  appended to a log together with the machine state it was made in; \<^verbatim>\<open>panic\<close>,
  \<^verbatim>\<open>exit\<close> and the jump into the trampoline end a run, so they are results and
  not returns.
\<close>

subsection \<open>Data\<close>

type_synonym uint64 = "64 word"
type_synonym uint = "32 word"

text \<open>A C \<^verbatim>\<open>int\<close>: 32 bits, read as two's complement with \<open>sint\<close>.\<close>

type_synonym cint = "32 word"

text \<open>The fields of \<^verbatim>\<open>struct trapframe\<close> that trap.c reads or writes.\<close>

record trapframe =
  kernel_satp :: uint64
  kernel_sp :: uint64
  kernel_trap :: uint64
  epc :: uint64
  kernel_hartid :: uint64

datatype procstate = UNUSED | SLEEPING | RUNNABLE | RUNNING | ZOMBIE

text \<open>The fields of \<^verbatim>\<open>struct proc\<close> that trap.c reads or writes.\<close>

record proc =
  state :: procstate
  killed :: cint
  pid :: cint
  kstack :: uint64
  pagetable :: uint64
  tf :: trapframe
  name :: string

text \<open>
  The supervisor registers behind \<^verbatim>\<open>r_sstatus()\<close>, \<^verbatim>\<open>w_sepc()\<close> and the others,
  the globals \<^verbatim>\<open>ticks\<close>, \<^verbatim>\<open>watchdog_time\<close> and \<^verbatim>\<open>watchdog_value\<close>, and the
  process \<^verbatim>\<open>myproc()\<close> points to (\<open>has_proc\<close> is false when it returns 0).
  \<^verbatim>\<open>watchdog.h\<close> is not among the sources: the two watchdog variables are taken to
  be 32 bits wide, like \<^verbatim>\<open>uint ticks\<close>, so that the comparison in \<^verbatim>\<open>clockintr\<close> is
  the unsigned 32-bit one whether they are declared \<^verbatim>\<open>int\<close> or \<^verbatim>\<open>uint\<close>.
\<close>

record machine =
  sstatus :: uint64
  sepc :: uint64
  scause :: uint64
  stval :: uint64
  stvec :: uint64
  sip :: uint64
  satp :: uint64
  tp :: uint64
  ticks :: uint
  watchdog_time :: uint
  watchdog_value :: uint
  has_proc :: bool
  myproc :: proc

text \<open>
  The constants, macros and symbol addresses of \<^verbatim>\<open>riscv.h\<close>, \<^verbatim>\<open>memlayout.h\<close>,
  \<^verbatim>\<open>defs.h\<close> and the assembly files. None of them is among the sources, so they
  are parameters of the model.
\<close>

record hdr =
  SSTATUS_SPP :: uint64
  SSTATUS_SPIE :: uint64
  SSTATUS_SIE :: uint64
  PGSIZE :: uint64
  TRAMPOLINE :: uint64
  TRAPFRAME :: uint64
  MAKE_SATP :: "uint64 \<Rightarrow> uint64"
  trampoline :: uint64
  uservec :: uint64
  userret :: uint64
  kernelvec :: uint64
  usertrap_addr :: uint64
  UART0_IRQ :: cint
  VIRTIO0_IRQ :: cint
  VIRTIO1_IRQ :: cint
  ENOVMA :: cint
  ENOMEM :: cint
  ENOFILE :: cint
  EMAPFAILED :: cint
  EBADPERM :: cint

datatype lock = Tickslock | Watchdog_lock | Vma_lock

datatype parg = PU uint64 | PI cint | PS string

text \<open>
  The calls of trap.c. The first four are the functions of trap.c itself, logged when
  they are entered; \<open>Panic\<close>, \<open>Exit\<close> and \<open>Userret\<close> never return; the others are
  the collaborators, with their arguments (\<open>Do_allocate\<close>: the page table, the address
  and the cause; the process argument is the current process).
\<close>

datatype call =
    Handle_page_fault uint64 uint64 uint64
  | Devintr
  | Clockintr
  | Usertrapret
  | Panic string
  | Exit cint
  | Userret uint64 uint64
  | Syscall
  | Yield
  | Printf string "parg list"
  | Acquire lock
  | Release lock
  | Do_allocate uint64 uint64 uint64
  | Proc_vmprint
  | Plic_claim
  | Plic_complete cint
  | Uartintr
  | Virtio_disk_intr cint
  | Wakeup
  | Cpuid

record kstate =
  mach :: machine
  trace :: "(call \<times> machine) list"

text \<open>
  How a run ends when it does not return: in \<^verbatim>\<open>panic\<close>, in \<^verbatim>\<open>exit\<close>, inside a
  collaborator that never comes back, in user mode, or by following a null
  \<^verbatim>\<open>myproc()\<close>.
\<close>

datatype stop = Panicked | Exited | NoReturn | UserMode | NullProc

datatype 'a res = Ret 'a kstate | Stop stop kstate

text \<open>
  The collaborators are a parameter: given the call and the machine state, the value
  returned and the machine state left behind, or \<open>None\<close> when the call does not
  return.
\<close>

type_synonym ext = "call \<Rightarrow> machine \<Rightarrow> (cint \<times> machine) option"

subsection \<open>Sequencing\<close>

fun seq :: "'a res \<Rightarrow> ('a \<Rightarrow> kstate \<Rightarrow> 'b res) \<Rightarrow> 'b res" where
  "seq (Ret a s) f = f a s"
| "seq (Stop r s) f = Stop r s"

fun final :: "'a res \<Rightarrow> kstate" where
  "final (Ret a s) = s"
| "final (Stop r s) = s"

definition log :: "call \<Rightarrow> kstate \<Rightarrow> kstate" where
  "log c s = s\<lparr>trace := trace s @ [(c, mach s)]\<rparr>"

definition modify :: "(machine \<Rightarrow> machine) \<Rightarrow> kstate \<Rightarrow> kstate" where
  "modify f s = s\<lparr>mach := f (mach s)\<rparr>"

definition call :: "ext \<Rightarrow> call \<Rightarrow> kstate \<Rightarrow> cint res" where
  "call ext c s =
     (case ext c (mach s) of
        None \<Rightarrow> Stop NoReturn (log c s)
      | Some (r, m') \<Rightarrow> Ret r ((log c s)\<lparr>mach := m'\<rparr>))"

text \<open>
  Modelled from the spec: \<^verbatim>\<open>panic\<close> (printf.c) is not among the sources; the spec has
  every fatal condition halt the entire system, so \<open>panic\<close> ends the run.
\<close>

definition panic :: "string \<Rightarrow> kstate \<Rightarrow> 'a res" where
  "panic msg s = Stop Panicked (log (Panic msg) s)"

text \<open>
  Modelled from the spec: \<^verbatim>\<open>exit\<close> (proc.c) is not among the sources; the spec has
  a killed process terminate and not resume, so \<open>exit\<close> ends the run.
\<close>

definition exit_proc :: "cint \<Rightarrow> kstate \<Rightarrow> 'a res" where
  "exit_proc status s = Stop Exited (log (Exit status) s)"

subsection \<open>Register accessors and macros\<close>

text \<open>
  Modelled from the spec: \<^verbatim>\<open>intr_on\<close>, \<^verbatim>\<open>intr_off\<close> and \<^verbatim>\<open>intr_get\<close> (riscv.h)
  are not among the sources; the spec speaks of interrupts being enabled or disabled in
  the status register, here its interrupt-enable bit \<open>SSTATUS_SIE\<close>.
\<close>

definition intr_on :: "hdr \<Rightarrow> machine \<Rightarrow> machine" where
  "intr_on h m = m\<lparr>sstatus := sstatus m OR SSTATUS_SIE h\<rparr>"

definition intr_off :: "hdr \<Rightarrow> machine \<Rightarrow> machine" where
  "intr_off h m = m\<lparr>sstatus := sstatus m AND NOT (SSTATUS_SIE h)\<rparr>"

definition intr_get :: "hdr \<Rightarrow> machine \<Rightarrow> cint" where
  "intr_get h m = (if sstatus m AND SSTATUS_SIE h \<noteq> 0 then 1 else 0)"

text \<open>
  Modelled from the spec: the macro \<^verbatim>\<open>PGROUNDDOWN\<close> (riscv.h) is not among the
  sources; the spec has it round an address down to the containing page boundary.
\<close>

definition PGROUNDDOWN :: "hdr \<Rightarrow> uint64 \<Rightarrow> uint64" where
  "PGROUNDDOWN h a = a - a mod PGSIZE h"

definition set_epc :: "uint64 \<Rightarrow> machine \<Rightarrow> machine" where
  "set_epc v m = m\<lparr>myproc := (myproc m)\<lparr>tf := (tf (myproc m))\<lparr>epc := v\<rparr>\<rparr>\<rparr>"

definition set_killed :: "cint \<Rightarrow> machine \<Rightarrow> machine" where
  "set_killed v m = m\<lparr>myproc := (myproc m)\<lparr>killed := v\<rparr>\<rparr>"

subsection \<open>scause_desc\<close>

definition intr_desc :: "string list" where
  "intr_desc =
    [''user software interrupt'',
     ''supervisor software interrupt'',
     ''<reserved for future standard use>'',
     ''<reserved for future standard use>'',
     ''user timer interrupt'',
     ''supervisor timer interrupt'',
     ''<reserved for future standard use>'',
     ''<reserved for future standard use>'',
     ''user external interrupt'',
     ''supervisor external interrupt'',
     ''<reserved for future standard use>'',
     ''<reserved for future standard use>'',
     ''<reserved for future standard use>'',
     ''<reserved for future standard use>'',
     ''<reserved for future standard use>'',
     ''<reserved for future standard use>'']"

definition nointr_desc :: "string list" where
  "nointr_desc =
    [''instruction address misaligned'',
     ''instruction access fault'',
     ''illegal instruction'',
     ''breakpoint'',
     ''load address misaligned'',
     ''load access fault'',
     ''store/AMO address misaligned'',
     ''store/AMO access fault'',
     ''environment call from U-mode'',
     ''environment call from S-mode'',
     ''<reserved for future standard use>'',
     ''<reserved for future standard use>'',
     ''instruction page fault'',
     ''load page fault'',
     ''<reserved for future standard use>'',
     ''store/AMO page fault'']"

definition scause_desc :: "uint64 \<Rightarrow> string" where
  "scause_desc stv =
     (let interrupt = stv AND 0x8000000000000000;
          code = stv AND NOT 0x8000000000000000
      in if interrupt \<noteq> 0 then
           (if code < 16 then intr_desc ! unat code
            else ''<reserved for platform use>'')
         else
           (if code < 16 then nointr_desc ! unat code
            else if code \<le> 23 then ''<reserved for future standard use>''
            else if code \<le> 31 then ''<reserved for custom use>''
            else if code \<le> 47 then ''<reserved for future standard use>''
            else if code \<le> 63 then ''<reserved for custom use>''
            else ''<reserved for future standard use>''))"

subsection \<open>handle_page_fault\<close>

definition handle_page_fault ::
  "hdr \<Rightarrow> ext \<Rightarrow> uint64 \<Rightarrow> uint64 \<Rightarrow> uint64 \<Rightarrow> kstate \<Rightarrow> cint res" where
  "handle_page_fault h ext cause va pc s0 =
     (let addr = PGROUNDDOWN h va in
      seq (call ext (Acquire Vma_lock) (log (Handle_page_fault cause va pc) s0)) (\<lambda>_ s1.
      seq (call ext (Printf ''handle_page_fault pid=%d (%s), scause=%p, stval=%p, sepc=%p\<newline>''
             [PI (pid (myproc (mach s1))), PS (name (myproc (mach s1))), PU cause, PU va, PU pc]) s1)
        (\<lambda>_ s2.
      seq (call ext (Do_allocate (pagetable (myproc (mach s2))) addr cause) s2) (\<lambda>flags s3.
      seq (call ext (Release Vma_lock) s3) (\<lambda>_ s4.
      if sint flags < 0 then
        seq (if flags = ENOVMA h then
               call ext (Printf ''Could not find VMA associated with addr=%p\<newline>'' [PU addr]) s4
             else if flags = ENOMEM h then
               call ext (Printf ''No more memory could be allocated from the kernel\<newline>'' []) s4
             else if flags = ENOFILE h then
               call ext (Printf ''Could not read file associated with memory area\<newline>'' []) s4
             else if flags = EMAPFAILED h then
               call ext (Printf ''mappages failed for an unknown reason\<newline>'' []) s4
             else if flags = EBADPERM h then
               call ext (Printf ''Bad permission addr=%p, scause=%p\<newline>'' [PU addr, PU cause]) s4
             else Ret 0 s4) (\<lambda>_ s5.
        seq (call ext Proc_vmprint s5) (\<lambda>_ s6.
        seq (call ext (Printf ''unrecoverable page fault by pid=%d at sepc=%p stval=%p scause=%x\<newline>''
               [PI (pid (myproc (mach s6))), PU pc, PU va, PU cause]) s6) (\<lambda>_ s7.
        Ret (- 1) (modify (set_killed 1) s7))))
      else Ret 0 s4)))))"

subsection \<open>clockintr and devintr\<close>

definition clockintr :: "ext \<Rightarrow> kstate \<Rightarrow> unit res" where
  "clockintr ext s0 =
     seq (call ext (Acquire Watchdog_lock) (log Clockintr s0)) (\<lambda>_ s1.
     seq (call ext (Acquire Tickslock) s1) (\<lambda>_ s2.
     if watchdog_time (mach s2) \<noteq> 0
        \<and> ticks (mach s2) - watchdog_value (mach s2) > watchdog_time (mach s2)
     then panic ''watchdog !!!'' s2
     else
       seq (call ext Wakeup (modify (\<lambda>m. m\<lparr>ticks := ticks m + 1\<rparr>) s2)) (\<lambda>_ s3.
       seq (call ext (Release Tickslock) s3) (\<lambda>_ s4.
       seq (call ext (Release Watchdog_lock) s4) (\<lambda>_ s5.
       Ret () s5)))))"

definition devintr :: "hdr \<Rightarrow> ext \<Rightarrow> kstate \<Rightarrow> cint res" where
  "devintr h ext s0 =
     (let s = log Devintr s0; cause = scause (mach s) in
      if cause AND 0x8000000000000000 \<noteq> 0 \<and> cause AND 0xff = 9 then
        seq (call ext Plic_claim s) (\<lambda>irq s1.
        seq (if irq = UART0_IRQ h then call ext Uartintr s1
             else if irq = VIRTIO0_IRQ h \<or> irq = VIRTIO1_IRQ h then
               call ext (Virtio_disk_intr (irq - VIRTIO0_IRQ h)) s1
             else Ret 0 s1) (\<lambda>_ s2.
        seq (if irq \<noteq> 0 then call ext (Plic_complete irq) s2 else Ret 0 s2) (\<lambda>_ s3.
        Ret 1 s3)))
      else if cause = 0x8000000000000001 then
        seq (call ext Cpuid s) (\<lambda>cpu s1.
        seq (if cpu = 0 then clockintr ext s1 else Ret () s1) (\<lambda>_ s2.
        Ret 2 (modify (\<lambda>m. m\<lparr>sip := sip m AND NOT 2\<rparr>) s2)))
      else Ret 0 s)"

subsection \<open>usertrapret, usertrap and kerneltrap\<close>

definition usertrapret :: "hdr \<Rightarrow> ext \<Rightarrow> kstate \<Rightarrow> unit res" where
  "usertrapret h ext s0 =
     (let s = log Usertrapret s0;
          p_not_null = has_proc (mach s);
          s1 = modify (intr_off h) s;
          s2 = modify (\<lambda>m. m\<lparr>stvec := TRAMPOLINE h + (uservec h - trampoline h)\<rparr>) s1
      in
      if \<not> p_not_null then Stop NullProc s2
      else
        let s3 = modify (\<lambda>m. m\<lparr>myproc := (myproc m)\<lparr>tf := (tf (myproc m))
                   \<lparr>kernel_satp := satp m,
                    kernel_sp := kstack (myproc m) + PGSIZE h,
                    kernel_trap := usertrap_addr h,
                    kernel_hartid := tp m\<rparr>\<rparr>\<rparr>) s2;
            s4 = modify (\<lambda>m. m\<lparr>sstatus := (sstatus m AND NOT (SSTATUS_SPP h)) OR SSTATUS_SPIE h\<rparr>) s3;
            s5 = modify (\<lambda>m. m\<lparr>sepc := epc (tf (myproc m))\<rparr>) s4;
            satp_user = MAKE_SATP h (pagetable (myproc (mach s5)))
        in Stop UserMode (log (Userret (TRAPFRAME h) satp_user) s5))"

definition usertrap :: "hdr \<Rightarrow> ext \<Rightarrow> kstate \<Rightarrow> unit res" where
  "usertrap h ext s =
     (if sstatus (mach s) AND SSTATUS_SPP h \<noteq> 0 then panic ''usertrap: not from user mode'' s
      else
        let s1 = modify (\<lambda>m. m\<lparr>stvec := kernelvec h\<rparr>) s in
        if \<not> has_proc (mach s1) then Stop NullProc s1
        else
          let s2 = modify (\<lambda>m. set_epc (sepc m) m) s1;
              cause = scause (mach s2)
          in
          seq (if cause = 8 then
                 (if killed (myproc (mach s2)) \<noteq> 0 then exit_proc (- 1) s2
                  else
                    let s3 = modify (\<lambda>m. set_epc (epc (tf (myproc m)) + 4) m) s2;
                        s4 = modify (intr_on h) s3
                    in seq (call ext Syscall s4) (\<lambda>_ s5. Ret 0 s5))
               else if cause = 0xf \<or> cause = 0xd then
                 seq (handle_page_fault h ext cause (stval (mach s2)) (sepc (mach s2)) s2)
                   (\<lambda>_ s3. Ret 0 s3)
               else if cause = 0xc then
                 seq (handle_page_fault h ext cause (stval (mach s2)) (sepc (mach s2)) s2)
                   (\<lambda>_ s3. Ret 0 s3)
               else
                 seq (devintr h ext s2) (\<lambda>which_dev s3.
                 if which_dev \<noteq> 0 then Ret which_dev s3
                 else
                   seq (call ext (Printf ''usertrap(): unexpected scause %p (%s) pid=%d\<newline>''
                          [PU (scause (mach s3)), PS (scause_desc (scause (mach s3))),
                           PI (pid (myproc (mach s3)))]) s3) (\<lambda>_ s4.
                   seq (call ext (Printf ''            sepc=%p stval=%p\<newline>''
                          [PU (sepc (mach s4)), PU (stval (mach s4))]) s4) (\<lambda>_ s5.
                   Ret 0 (modify (set_killed 1) s5)))))
            (\<lambda>which_dev s6.
               if killed (myproc (mach s6)) \<noteq> 0 then exit_proc (- 1) s6
               else
                 seq (if which_dev = 2 then call ext Yield s6 else Ret 0 s6) (\<lambda>_ s7.
                 usertrapret h ext s7)))"

definition kerneltrap :: "hdr \<Rightarrow> ext \<Rightarrow> kstate \<Rightarrow> unit res" where
  "kerneltrap h ext s =
     (let sepc0 = sepc (mach s); sstatus0 = sstatus (mach s); scause0 = scause (mach s) in
      if sstatus0 AND SSTATUS_SPP h = 0 then panic ''kerneltrap: not from supervisor mode'' s
      else if intr_get h (mach s) \<noteq> 0 then panic ''kerneltrap: interrupts enabled'' s
      else
        seq (devintr h ext s) (\<lambda>which_dev s1.
        seq (if which_dev = 0 then
               seq (call ext (Printf ''scause %p (%s)\<newline>''
                      [PU scause0, PS (scause_desc scause0)]) s1) (\<lambda>_ s2.
               seq (call ext (Printf ''sepc=%p stval=%p\<newline>''
                      [PU (sepc (mach s2)), PU (stval (mach s2))]) s2) (\<lambda>_ s3.
               panic ''kerneltrap'' s3))
             else Ret () s1) (\<lambda>_ s4.
        seq (if which_dev = 2 \<and> has_proc (mach s4) \<and> state (myproc (mach s4)) = RUNNING
             then call ext Yield s4 else Ret 0 s4) (\<lambda>_ s5.
        Ret () (modify (\<lambda>m. m\<lparr>sepc := sepc0, sstatus := sstatus0\<rparr>) s5)))))"

subsection \<open>Call logs\<close>

text \<open>
  What a run adds to the log of the state it starts in: the entries, the calls alone,
  and the calls with the saved program counter \<^verbatim>\<open>p->tf->epc\<close> at the time of each.
\<close>

definition new_trace :: "kstate \<Rightarrow> 'a res \<Rightarrow> (call \<times> machine) list" where
  "new_trace s r = drop (length (trace s)) (trace (final r))"

definition new_calls :: "kstate \<Rightarrow> 'a res \<Rightarrow> call list" where
  "new_calls s r = map fst (new_trace s r)"

definition new_calls_pc :: "kstate \<Rightarrow> 'a res \<Rightarrow> (call \<times> uint64) list" where
  "new_calls_pc s r = map (\<lambda>(c, m). (c, epc (tf (myproc m)))) (new_trace s r)"

fun stopped_with :: "'a res \<Rightarrow> stop option" where
  "stopped_with (Ret a s) = None"
| "stopped_with (Stop r s) = Some r"

fun returned :: "'a res \<Rightarrow> 'a option" where
  "returned (Ret a s) = Some a"
| "returned (Stop r s) = None"

text \<open>
  \<open>grows I Q s0 s\<close>: the log of \<open>s\<close> is the log of \<open>s0\<close> followed by calls that
  satisfy \<open>Q\<close>, each made in a machine state that satisfies \<open>I\<close>, and the machine
  state of \<open>s\<close> satisfies \<open>I\<close>. \<open>ends I Q s0 r\<close>: the run \<open>r\<close> ends in such a state.
\<close>

definition grows :: "(machine \<Rightarrow> bool) \<Rightarrow> (call \<Rightarrow> bool) \<Rightarrow> kstate \<Rightarrow> kstate \<Rightarrow> bool" where
  "grows I Q s0 s =
     (I (mach s) \<and> take (length (trace s0)) (trace s) = trace s0
      \<and> list_all (\<lambda>(c, m). Q c \<and> I m) (drop (length (trace s0)) (trace s)))"

definition ends :: "(machine \<Rightarrow> bool) \<Rightarrow> (call \<Rightarrow> bool) \<Rightarrow> kstate \<Rightarrow> 'a res \<Rightarrow> bool" where
  "ends I Q s0 r = grows I Q s0 (final r)"

text \<open>The collaborators keep \<open>I\<close>; \<open>I\<close> looks at the saved program counter only.\<close>

definition frame :: "(machine \<Rightarrow> bool) \<Rightarrow> ext \<Rightarrow> bool" where
  "frame I ext = (\<forall>c m r m'. I m \<longrightarrow> ext c m = Some (r, m') \<longrightarrow> I m')"

definition pc_only :: "(machine \<Rightarrow> bool) \<Rightarrow> bool" where
  "pc_only I = (\<forall>m m'. I m \<longrightarrow> epc (tf (myproc m')) = epc (tf (myproc m)) \<longrightarrow> I m')"

text \<open>No collaborator writes the saved program counter; every collaborator returns.\<close>

definition keeps_pc :: "ext \<Rightarrow> bool" where
  "keeps_pc ext =
     (\<forall>c m r m'. ext c m = Some (r, m') \<longrightarrow> epc (tf (myproc m')) = epc (tf (myproc m)))"

definition returns :: "ext \<Rightarrow> bool" where
  "returns ext = (\<forall>c m. ext c m \<noteq> None)"

text \<open>The calls each function of trap.c can make.\<close>

fun clockintr_call :: "call \<Rightarrow> bool" where
  "clockintr_call Clockintr = True"
| "clockintr_call (Acquire l) = (l = Watchdog_lock \<or> l = Tickslock)"
| "clockintr_call (Release l) = (l = Watchdog_lock \<or> l = Tickslock)"
| "clockintr_call Wakeup = True"
| "clockintr_call (Panic msg) = (msg = ''watchdog !!!'')"
| "clockintr_call _ = False"

fun devintr_call :: "call \<Rightarrow> bool" where
  "devintr_call Devintr = True"
| "devintr_call Plic_claim = True"
| "devintr_call Uartintr = True"
| "devintr_call (Virtio_disk_intr n) = True"
| "devintr_call (Plic_complete irq) = (irq \<noteq> 0)"
| "devintr_call Cpuid = True"
| "devintr_call c = clockintr_call c"

fun hpf_call :: "hdr \<Rightarrow> uint64 \<Rightarrow> uint64 \<Rightarrow> call \<Rightarrow> bool" where
  "hpf_call h cause va (Handle_page_fault c v p) = (c = cause \<and> v = va)"
| "hpf_call h cause va (Acquire l) = (l = Vma_lock)"
| "hpf_call h cause va (Release l) = (l = Vma_lock)"
| "hpf_call h cause va (Printf fmt args) = True"
| "hpf_call h cause va (Do_allocate pt a c) = (a = PGROUNDDOWN h va \<and> c = cause)"
| "hpf_call h cause va Proc_vmprint = True"
| "hpf_call h cause va _ = False"

fun usertrapret_call :: "call \<Rightarrow> bool" where
  "usertrapret_call Usertrapret = True"
| "usertrapret_call (Userret a b) = True"
| "usertrapret_call _ = False"

text \<open>The Page Fault Resolver, its allocator and the syscall collaborator.\<close>

fun resolver_or_syscall :: "call \<Rightarrow> bool" where
  "resolver_or_syscall (Handle_page_fault c v p) = True"
| "resolver_or_syscall (Do_allocate pt a c) = True"
| "resolver_or_syscall Syscall = True"
| "resolver_or_syscall _ = False"

text \<open>
  The address and cause arguments of a call of the allocator; \<open>allocates_at a c\<close>
  holds of every call but a call of the allocator with other arguments.
\<close>

fun alloc_args :: "call \<Rightarrow> (uint64 \<times> uint64) option" where
  "alloc_args (Do_allocate pt a c) = Some (a, c)"
| "alloc_args _ = None"

fun allocates_at :: "uint64 \<Rightarrow> uint64 \<Rightarrow> call \<Rightarrow> bool" where
  "allocates_at a c (Do_allocate pt a' c') = (a' = a \<and> c' = c)"
| "allocates_at a c _ = True"

text \<open>
  A call of \<^verbatim>\<open>panic\<close>; one of the two calls of \<^verbatim>\<open>panic\<close> that guard the entry
  of kerneltrap; the device service routines devintr invokes for a claimed identifier.
\<close>

fun is_Panic :: "call \<Rightarrow> bool" where
  "is_Panic (Panic msg) = True"
| "is_Panic _ = False"

fun entry_panic :: "call \<Rightarrow> bool" where
  "entry_panic (Panic msg) =
     (msg = ''kerneltrap: not from supervisor mode'' \<or> msg = ''kerneltrap: interrupts enabled'')"
| "entry_panic _ = False"

definition isr_calls :: "hdr \<Rightarrow> cint \<Rightarrow> call list" where
  "isr_calls h irq =
     (if irq = UART0_IRQ h then [Uartintr]
      else if irq = VIRTIO0_IRQ h \<or> irq = VIRTIO1_IRQ h then [Virtio_disk_intr (irq - VIRTIO0_IRQ h)]
      else [])"

text \<open>
  No collaborator writes the tick counter; \<^verbatim>\<open>cpuid()\<close> answers 0 (the timekeeping
  core), or never 0 (another core).
\<close>

definition keeps_ticks :: "ext \<Rightarrow> bool" where
  "keeps_ticks ext = (\<forall>c m r m'. ext c m = Some (r, m') \<longrightarrow> ticks m' = ticks m)"

definition cpuid_is_zero :: "ext \<Rightarrow> bool" where
  "cpuid_is_zero ext = (\<forall>m r m'. ext Cpuid m = Some (r, m') \<longrightarrow> r = 0)"

definition cpuid_not_zero :: "ext \<Rightarrow> bool" where
  "cpuid_not_zero ext = (\<forall>m r m'. ext Cpuid m = Some (r, m') \<longrightarrow> r \<noteq> 0)"

text \<open>
  The condition under which clockintr halts, as its \<^verbatim>\<open>if\<close> has it; and
  collaborators that leave a watchdog that is off (threshold 0) off.
\<close>

definition watchdog_expired :: "machine \<Rightarrow> bool" where
  "watchdog_expired m =
     (watchdog_time m \<noteq> 0 \<and> ticks m - watchdog_value m > watchdog_time m)"

definition keeps_watchdog_off :: "ext \<Rightarrow> bool" where
  "keeps_watchdog_off ext =
     (\<forall>c m r m'. ext c m = Some (r, m') \<longrightarrow> watchdog_time m = 0 \<longrightarrow> watchdog_time m' = 0)"

text \<open>
  \<open>n\<close> timer interrupts in a row, each delivered to devintr as the supervisor software
  interrupt \<open>0x8000000000000001\<close>; \<open>env\<close> is what the rest of the kernel does to the
  machine between two of them.
\<close>

fun timer_events :: "hdr \<Rightarrow> ext \<Rightarrow> (machine \<Rightarrow> machine) \<Rightarrow> nat \<Rightarrow> kstate \<Rightarrow> cint res" where
  "timer_events h ext env 0 s = Ret 2 s"
| "timer_events h ext env (Suc n) s =
     seq (devintr h ext (modify (\<lambda>m. (env m)\<lparr>scause := 0x8000000000000001\<rparr>) s))
       (\<lambda>_ s'. timer_events h ext env n s')"

subsection \<open>A sample platform\<close>

text \<open>
  An instance of the header parameters: the values of xv6 for the qemu virt board
  where xv6 fixes them; the symbol addresses and the error codes are sample values.
\<close>

definition xv6_hdr :: hdr where
  "xv6_hdr =
     \<lparr>SSTATUS_SPP = 0x100, SSTATUS_SPIE = 0x20, SSTATUS_SIE = 2, PGSIZE = 4096,
      TRAMPOLINE = 0x3ffffff000, TRAPFRAME = 0x3fffffe000,
      MAKE_SATP = (\<lambda>pt. 0x8000000000000000 OR drop_bit 12 pt),
      trampoline = 0x80007000, uservec = 0x80007000, userret = 0x80007090,
      kernelvec = 0x80005000, usertrap_addr = 0x80002000,
      UART0_IRQ = 10, VIRTIO0_IRQ = 1, VIRTIO1_IRQ = 2,
      ENOVMA = - 1, ENOMEM = - 2, ENOFILE = - 3, EMAPFAILED = - 4, EBADPERM = - 5\<rparr>"

text \<open>
  Collaborators that return at once and leave the machine alone: \<open>ext_val v\<close> returns
  \<open>v c\<close> from the call \<open>c\<close>, \<open>ext_ok\<close> returns 0 from every call.
\<close>

definition ext_val :: "(call \<Rightarrow> cint) \<Rightarrow> ext" where
  "ext_val v = (\<lambda>c m. Some (v c, m))"

definition ext_ok :: ext where
  "ext_ok = ext_val (\<lambda>c. 0)"

text \<open>
  A process trapping from user mode at pc \<open>0x1000\<close> with interrupts off in the kernel,
  and the state that starts a run in a machine state with an empty log.
\<close>

definition sample_proc :: proc where
  "sample_proc =
     \<lparr>state = RUNNING, killed = 0, pid = 3, kstack = 0x3fffffc000, pagetable = 0x87f00000,
      tf = \<lparr>kernel_satp = 0, kernel_sp = 0, kernel_trap = 0, epc = 0, kernel_hartid = 0\<rparr>,
      name = ''sh''\<rparr>"

definition sample_machine :: machine where
  "sample_machine =
     \<lparr>sstatus = 0x20, sepc = 0x1000, scause = 8, stval = 0x2abc, stvec = 0x3ffffff000,
      sip = 2, satp = 0x8000000000087fff, tp = 0, ticks = 5, watchdog_time = 0,
      watchdog_value = 0, has_proc = True, myproc = sample_proc\<rparr>"

definition start :: "machine \<Rightarrow> kstate" where
  "start m = \<lparr>mach = m, trace = []\<rparr>"

text \<open>Collaborators among which \<^verbatim>\<open>plic_claim()\<close> returns \<open>irq\<close>.\<close>

definition ext_irq :: "cint \<Rightarrow> ext" where
  "ext_irq irq = ext_val (\<lambda>c. if c = Plic_claim then irq else 0)"

section \<open>Rules\<close>

subsection \<open>Logs that grow\<close>

lemma mach_modify [simp]: "mach (modify f s) = f (mach s)"
  by (simp add: modify_def)

lemma trace_modify [simp]: "trace (modify f s) = trace s"
  by (simp add: modify_def)

lemma mach_log [simp]: "mach (log c s) = mach s"
  by (simp add: log_def)

lemma trace_log [simp]: "trace (log c s) = trace s @ [(c, mach s)]"
  by (simp add: log_def)

lemma grows_iff:
  "grows I Q s0 s \<longleftrightarrow>
     I (mach s) \<and> (\<exists>xs. trace s = trace s0 @ xs \<and> list_all (\<lambda>(c, m). Q c \<and> I m) xs)"
  unfolding grows_def
  by (metis append_eq_conv_conj append_take_drop_id)

lemma grows_refl: "I (mach s) \<Longrightarrow> grows I Q s s"
  by (simp add: grows_def)

lemma grows_log: "grows I Q s0 s \<Longrightarrow> Q c \<Longrightarrow> grows I Q s0 (log c s)"
  by (auto simp: grows_iff)

lemma grows_modify: "grows I Q s0 s \<Longrightarrow> I (f (mach s)) \<Longrightarrow> grows I Q s0 (modify f s)"
  by (auto simp: grows_iff)

lemma grows_modify_pc:
  "grows I Q s0 s \<Longrightarrow> pc_only I
   \<Longrightarrow> epc (tf (myproc (f (mach s)))) = epc (tf (myproc (mach s)))
   \<Longrightarrow> grows I Q s0 (modify f s)"
  by (rule grows_modify) (auto simp: pc_only_def grows_def)

lemma ends_Ret: "grows I Q s0 s \<Longrightarrow> ends I Q s0 (Ret a s)"
  by (simp add: ends_def)

lemma ends_Stop: "grows I Q s0 s \<Longrightarrow> ends I Q s0 (Stop r s)"
  by (simp add: ends_def)

lemma ends_seq:
  "ends I Q s0 r \<Longrightarrow> (\<And>a s. r = Ret a s \<Longrightarrow> grows I Q s0 s \<Longrightarrow> ends I Q s0 (f a s))
   \<Longrightarrow> ends I Q s0 (seq r f)"
  by (cases r) (simp_all add: ends_def)

lemma ends_call_logged:
  "grows I Q s0 (log c s) \<Longrightarrow> frame I ext \<Longrightarrow> ends I Q s0 (call ext c s)"
  by (auto simp: ends_def call_def grows_iff frame_def split: option.splits)

lemma ends_call:
  "grows I Q s0 s \<Longrightarrow> frame I ext \<Longrightarrow> Q c \<Longrightarrow> ends I Q s0 (call ext c s)"
  by (rule ends_call_logged) (simp_all add: grows_log)

lemma ends_panic: "grows I Q s0 s \<Longrightarrow> Q (Panic msg) \<Longrightarrow> ends I Q s0 (panic msg s)"
  by (simp add: panic_def ends_Stop grows_log)

lemma ends_exit: "grows I Q s0 s \<Longrightarrow> Q (Exit v) \<Longrightarrow> ends I Q s0 (exit_proc v s)"
  by (simp add: exit_proc_def ends_Stop grows_log)

lemma ends_new_calls: "ends I Q s r \<Longrightarrow> list_all Q (new_calls s r)"
  by (auto simp: ends_def grows_def new_calls_def new_trace_def list_all_iff)

lemma ends_new_trace:
  "ends I Q s r \<Longrightarrow> list_all (\<lambda>(c, m). I m) (new_trace s r) \<and> I (mach (final r))"
  by (auto simp: ends_def grows_def new_trace_def list_all_iff)

lemma ends_after:
  "ends I Q s1 r \<Longrightarrow> trace s1 = trace s @ xs \<Longrightarrow> take (length xs) (new_trace s r) = xs"
  by (auto simp: ends_def grows_iff new_trace_def)

subsection \<open>The calls of each function\<close>

text \<open>Each function of trap.c makes only its own calls.\<close>

lemma clockintr_ends:
  assumes "grows I Q s0 (log Clockintr s)" "frame I ext" "pc_only I"
    "\<And>c. clockintr_call c \<Longrightarrow> Q c"
  shows "ends I Q s0 (clockintr ext s)"
  unfolding clockintr_def using assms
  by (auto intro!: ends_seq ends_call ends_panic ends_Ret grows_modify_pc)

lemma clockintr_call_devintr: "clockintr_call c \<Longrightarrow> devintr_call c"
  by (cases c) simp_all

lemma devintr_ends:
  assumes "grows I Q s0 (log Devintr s)" "frame I ext" "pc_only I"
    "\<And>c. devintr_call c \<Longrightarrow> Q c"
  shows "ends I Q s0 (devintr h ext s)"
proof -
  have clk: "\<And>c. clockintr_call c \<Longrightarrow> Q c"
    by (rule assms(4)) (rule clockintr_call_devintr)
  show ?thesis
    unfolding devintr_def Let_def using assms clk
    by (auto intro!: ends_seq ends_call ends_Ret grows_log grows_modify_pc clockintr_ends)
qed

lemma handle_page_fault_ends:
  assumes "grows I Q s0 (log (Handle_page_fault cause va pc) s)" "frame I ext" "pc_only I"
    "\<And>c. hpf_call h cause va c \<Longrightarrow> Q c"
  shows "ends I Q s0 (handle_page_fault h ext cause va pc s)"
  unfolding handle_page_fault_def Let_def using assms
  by (auto intro!: ends_seq ends_call ends_Ret grows_modify_pc simp: set_killed_def)

lemma usertrapret_ends:
  assumes "grows I Q s0 (log Usertrapret s)" "pc_only I" "\<And>c. usertrapret_call c \<Longrightarrow> Q c"
  shows "ends I Q s0 (usertrapret h ext s)"
  unfolding usertrapret_def Let_def using assms
  by (auto intro!: ends_Stop grows_log grows_modify_pc simp: intr_off_def)

subsection \<open>Dispatch in usertrap\<close>

lemma interrupt_not_sync:
  "(x :: uint64) AND 0x8000000000000000 \<noteq> 0
   \<Longrightarrow> x \<noteq> 8 \<and> x \<noteq> 0xf \<and> x \<noteq> 0xd \<and> x \<noteq> 0xc"
  by auto

lemma keeps_pc_frame: "keeps_pc ext \<Longrightarrow> frame (\<lambda>m. epc (tf (myproc m)) = v) ext"
  by (auto simp: keeps_pc_def frame_def)

lemma pc_only_eq: "pc_only (\<lambda>m. epc (tf (myproc m)) = v)"
  by (simp add: pc_only_def)

lemma frame_True: "frame (\<lambda>m. True) ext"
  by (simp add: frame_def)

lemma pc_only_True: "pc_only (\<lambda>m. True)"
  by (simp add: pc_only_def)

lemma usertrapret_any:
  "grows (\<lambda>m. True) Q s0 s' \<Longrightarrow> Q Usertrapret \<Longrightarrow> (\<And>a b. Q (Userret a b))
   \<Longrightarrow> ends (\<lambda>m. True) Q s0 (usertrapret h ext s')"
proof (rule usertrapret_ends)
  fix c assume "usertrapret_call c" "Q Usertrapret" "\<And>a b. Q (Userret a b)"
  then show "Q c" by (cases c) simp_all
qed (simp_all add: grows_log pc_only_True)

lemma usertrap_page_fault_unfold:
  assumes spp: "sstatus (mach s) AND SSTATUS_SPP h = 0" and hp: "has_proc (mach s)"
    and c: "scause (mach s) \<in> {0xc, 0xd, 0xf}"
  shows "usertrap h ext s =
     seq (seq (handle_page_fault h ext (scause (mach s)) (stval (mach s)) (sepc (mach s))
                 (modify (\<lambda>m. set_epc (sepc m) m) (modify (\<lambda>m. m\<lparr>stvec := kernelvec h\<rparr>) s)))
            (\<lambda>_ s3. Ret (0::cint) s3))
       (\<lambda>which_dev s6.
               if killed (myproc (mach s6)) \<noteq> 0 then exit_proc (- 1) s6
               else
                 seq (if which_dev = 2 then call ext Yield s6 else Ret 0 s6) (\<lambda>_ s7.
                 usertrapret h ext s7))"
  using assms unfolding usertrap_def Let_def
  by (auto simp: set_epc_def)

lemma hpf_reaches_allocate:
  assumes ret: "returns ext"
  obtains b pre pt where
    "ends (\<lambda>m. True) (\<lambda>c. True) b (handle_page_fault h ext cause va pc s)"
    "trace b = trace s @ pre @ [(Do_allocate pt (PGROUNDDOWN h va) cause, mach b)]"
    "map alloc_args (map fst pre) = [None, None, None]"
proof -
  let ?T = "\<lambda>m::machine. True"
  let ?A = "\<lambda>c::call. True"
  let ?H = "Handle_page_fault cause va pc"
  let ?acq = "Acquire Vma_lock"
  obtain r1 m1 where e1: "ext ?acq (mach s) = Some (r1, m1)"
    using ret unfolding returns_def by (metis option.exhaust surj_pair)
  define sA where "sA = (log ?acq (log ?H s))\<lparr>mach := m1\<rparr>"
  let ?pr = "Printf ''handle_page_fault pid=%d (%s), scause=%p, stval=%p, sepc=%p\<newline>''
             [PI (pid (myproc (mach sA))), PS (name (myproc (mach sA))),
              PU cause, PU va, PU pc]"
  obtain r2 m2 where e2: "ext ?pr (mach sA) = Some (r2, m2)"
    using ret unfolding returns_def by (metis option.exhaust surj_pair)
  define sB where "sB = (log ?pr sA)\<lparr>mach := m2\<rparr>"
  let ?al = "Do_allocate (pagetable (myproc (mach sB))) (PGROUNDDOWN h va) cause"
  have c1: "call ext ?acq (log ?H s) = Ret r1 sA"
    using e1 by (simp add: call_def sA_def)
  have c2: "call ext ?pr sA = Ret r2 sB"
    using e2 by (simp add: call_def sB_def)
  have g: "grows ?T ?A (log ?al sB) (log ?al sB)" by (simp add: grows_def)
  have "ends ?T ?A (log ?al sB) (handle_page_fault h ext cause va pc s)"
    unfolding handle_page_fault_def Let_def c1 seq.simps c2
    using g
    by (auto intro!: ends_seq ends_call_logged grows_log grows_modify ends_Ret frame_True)
  moreover have "trace (log ?al sB) = trace s @ [(?H, mach s), (?acq, mach s), (?pr, mach sA)]
       @ [(?al, mach (log ?al sB))]"
    by (simp add: sA_def sB_def)
  moreover have "map alloc_args (map fst [(?H, mach s), (?acq, mach s), (?pr, mach sA)])
       = [None, None, None]"
    by simp
  ultimately show ?thesis by (rule that)
qed


subsection \<open>Rounding down to a page\<close>

text \<open>
  \<open>PGROUNDDOWN\<close> yields an address not above its argument and less than a page
  below it; for 4096-byte pages it clears the low 12 bits, as the macro of xv6 does.
\<close>

lemma PGROUNDDOWN_le: "PGROUNDDOWN h a \<le> a"
  unfolding PGROUNDDOWN_def
  by (metis (no_types, lifting) linorder_le_less_linear mod_by_0
    mod_word_less order_less_trans order_refl word_gt_0
    word_mod_less_divisor word_sub_le)

lemma PGROUNDDOWN_offset: "PGSIZE h \<noteq> 0 \<Longrightarrow> a - PGROUNDDOWN h a < PGSIZE h"
  unfolding PGROUNDDOWN_def
  by (simp add: word_gt_0 word_mod_less_divisor)

lemma word_split_mask: "(a AND m) + (a AND NOT m) = a" for a m :: "'a::len word"
proof -
  have "(a AND m) AND (a AND NOT m) = 0"
    by (simp add: bit_eq_iff bit_simps)
  then have "(a AND m) + (a AND NOT m) = (a AND m) OR (a AND NOT m)"
    by (rule disjunctive_add_eq_or)
  also have "\<dots> = a"
    by (auto simp: bit_eq_iff bit_simps)
  finally show ?thesis .
qed

lemma mod_4096: "(a :: 64 word) mod 4096 = a AND 0xfff"
  using word_mod_2p_is_mask [of 12 a] by (simp add: mask_eq_exp_minus_1)

lemma PGROUNDDOWN_4096: "PGSIZE h = 4096 \<Longrightarrow> PGROUNDDOWN h a = a AND NOT 0xfff"
  using word_split_mask [of a "0xfff"] by (simp add: PGROUNDDOWN_def mod_4096 algebra_simps)

subsection \<open>Collaborators that return\<close>

lemma call_Ret:
  "ext c (mach s) = Some (r, m') \<Longrightarrow> call ext c s = Ret r ((log c s)\<lparr>mach := m'\<rparr>)"
  by (simp add: call_def)

lemma returns_call:
  assumes "returns ext"
  obtains r m' where "call ext c s = Ret r ((log c s)\<lparr>mach := m'\<rparr>)"
proof -
  obtain r m' where "ext c (mach s) = Some (r, m')"
    using assms unfolding returns_def by (metis option.exhaust surj_pair)
  then show ?thesis by (auto intro: that call_Ret)
qed

lemma call_not_Panicked: "stopped_with (call ext c s) \<noteq> Some Panicked"
  by (simp add: call_def split: option.splits)

lemma seq_not_Panicked:
  "stopped_with r \<noteq> Some Panicked
   \<Longrightarrow> (\<And>a s'. r = Ret a s' \<Longrightarrow> stopped_with (f a s') \<noteq> Some Panicked)
   \<Longrightarrow> stopped_with (seq r f) \<noteq> Some Panicked"
  by (cases r) simp_all

lemma returned_seq:
  "(\<And>a s'. r = Ret a s' \<Longrightarrow> returned (f a s') \<in> insert None S)
   \<Longrightarrow> returned (seq r f) \<in> insert None S"
  by (cases r) simp_all

lemma returned_seq_Some:
  "stopped_with r = None \<Longrightarrow> (\<And>a s'. r = Ret a s' \<Longrightarrow> returned (f a s') = Some v)
   \<Longrightarrow> returned (seq r f) = Some v"
  by (cases r) simp_all

lemma returns_call_stopped: "returns ext \<Longrightarrow> stopped_with (call ext c s) = None"
  by (erule returns_call [where c = c and s = s]) simp

lemma new_calls_alt: "new_calls s r = drop (length (trace s)) (map fst (trace (final r)))"
  by (simp add: new_calls_def new_trace_def drop_map)

subsection \<open>The tick counter\<close>

lemma call_ticks:
  "keeps_ticks ext \<Longrightarrow> call ext c s = Ret r s' \<Longrightarrow> ticks (mach s') = ticks (mach s)"
  by (auto simp: keeps_ticks_def call_def split: option.splits)

lemma seq_Ret:
  assumes "seq r f = Ret b t"
  obtains a s where "r = Ret a s" "f a s = Ret b t"
  using assms by (cases r) simp_all

lemma clockintr_ticks:
  assumes k: "keeps_ticks ext" and r: "clockintr ext s = Ret u s'"
  shows "ticks (mach s') = ticks (mach s) + 1"
proof -
  from r obtain a1 s1 where c1: "call ext (Acquire Watchdog_lock) (log Clockintr s) = Ret a1 s1"
    and r1: "seq (call ext (Acquire Tickslock) s1) (\<lambda>_ s2.
     if watchdog_time (mach s2) \<noteq> 0
        \<and> ticks (mach s2) - watchdog_value (mach s2) > watchdog_time (mach s2)
     then panic ''watchdog !!!'' s2
     else
       seq (call ext Wakeup (modify (\<lambda>m. m\<lparr>ticks := ticks m + 1\<rparr>) s2)) (\<lambda>_ s3.
       seq (call ext (Release Tickslock) s3) (\<lambda>_ s4.
       seq (call ext (Release Watchdog_lock) s4) (\<lambda>_ s5.
       Ret () s5)))) = Ret u s'"
    unfolding clockintr_def by (rule seq_Ret)
  from r1 obtain a2 s2 where c2: "call ext (Acquire Tickslock) s1 = Ret a2 s2"
    and r2: "(if watchdog_time (mach s2) \<noteq> 0
        \<and> ticks (mach s2) - watchdog_value (mach s2) > watchdog_time (mach s2)
     then panic ''watchdog !!!'' s2
     else
       seq (call ext Wakeup (modify (\<lambda>m. m\<lparr>ticks := ticks m + 1\<rparr>) s2)) (\<lambda>_ s3.
       seq (call ext (Release Tickslock) s3) (\<lambda>_ s4.
       seq (call ext (Release Watchdog_lock) s4) (\<lambda>_ s5.
       Ret () s5)))) = Ret u s'"
    by (rule seq_Ret)
  from r2 have r3: "seq (call ext Wakeup (modify (\<lambda>m. m\<lparr>ticks := ticks m + 1\<rparr>) s2)) (\<lambda>_ s3.
       seq (call ext (Release Tickslock) s3) (\<lambda>_ s4.
       seq (call ext (Release Watchdog_lock) s4) (\<lambda>_ s5.
       Ret () s5))) = Ret u s'"
    by (simp add: panic_def split: if_splits)
  from r3 obtain a3 s3 where c3: "call ext Wakeup (modify (\<lambda>m. m\<lparr>ticks := ticks m + 1\<rparr>) s2) = Ret a3 s3"
    and r4: "seq (call ext (Release Tickslock) s3) (\<lambda>_ s4.
       seq (call ext (Release Watchdog_lock) s4) (\<lambda>_ s5.
       Ret () s5)) = Ret u s'"
    by (rule seq_Ret)
  from r4 obtain a4 s4 where c4: "call ext (Release Tickslock) s3 = Ret a4 s4"
    and r5: "seq (call ext (Release Watchdog_lock) s4) (\<lambda>_ s5. Ret () s5) = Ret u s'"
    by (rule seq_Ret)
  from r5 obtain a5 s5 where c5: "call ext (Release Watchdog_lock) s4 = Ret a5 s5"
    and r6: "Ret () s5 = Ret u s'"
    by (rule seq_Ret)
  from call_ticks [OF k c1] call_ticks [OF k c2] call_ticks [OF k c3] call_ticks [OF k c4]
    call_ticks [OF k c5] r6
  show ?thesis by simp
qed

lemma devintr_timer_ticks:
  assumes k: "keeps_ticks ext" and sc: "scause (mach s) = 0x8000000000000001"
    and r: "devintr h ext s = Ret w s'"
  shows "w = 2
    \<and> (cpuid_is_zero ext \<longrightarrow> ticks (mach s') = ticks (mach s) + 1)
    \<and> (cpuid_not_zero ext \<longrightarrow> ticks (mach s') = ticks (mach s))"
proof -
  have nx: "\<not> (scause (mach s) AND 0x8000000000000000 \<noteq> 0 \<and> scause (mach s) AND 0xff = 9)"
    by (simp add: sc)
  from r have r0: "seq (call ext Cpuid (log Devintr s)) (\<lambda>cpu s1.
        seq (if cpu = 0 then clockintr ext s1 else Ret () s1) (\<lambda>_ s2.
        Ret 2 (modify (\<lambda>m. m\<lparr>sip := sip m AND NOT 2\<rparr>) s2))) = Ret w s'"
    using nx sc by (simp add: devintr_def Let_def)
  from r0 obtain cpu s1 where c1: "call ext Cpuid (log Devintr s) = Ret cpu s1"
    and r1: "seq (if cpu = 0 then clockintr ext s1 else Ret () s1) (\<lambda>_ s2.
        Ret 2 (modify (\<lambda>m. m\<lparr>sip := sip m AND NOT 2\<rparr>) s2)) = Ret w s'"
    by (rule seq_Ret)
  from r1 obtain u s2 where c2: "(if cpu = 0 then clockintr ext s1 else Ret () s1) = Ret u s2"
    and r2: "Ret 2 (modify (\<lambda>m. m\<lparr>sip := sip m AND NOT 2\<rparr>) s2) = Ret w s'"
    by (rule seq_Ret)
  have t1: "ticks (mach s1) = ticks (mach s)"
    using call_ticks [OF k c1] by simp
  have t3: "ticks (mach s') = ticks (mach s2)" and w: "w = 2"
    using r2 by auto
  have cz: "cpu = 0" if "cpuid_is_zero ext"
    using that c1 by (auto simp: cpuid_is_zero_def call_def split: option.splits)
  have cn: "cpu \<noteq> 0" if "cpuid_not_zero ext"
    using that c1 by (auto simp: cpuid_not_zero_def call_def split: option.splits)
  have "ticks (mach s2) = ticks (mach s1) + 1" if "cpu = 0"
    using that c2 by (simp add: clockintr_ticks [OF k])
  moreover have "ticks (mach s2) = ticks (mach s1)" if "cpu \<noteq> 0"
    using that c2 by simp
  ultimately show ?thesis using t1 t3 w cz cn by auto
qed

subsection \<open>Runs on the sample machine\<close>

lemma returned_Ret: "returned r = Some a \<Longrightarrow> r = Ret a (final r)"
  by (cases r) simp_all

lemma timer_events_sample:
  "returned (timer_events xv6_hdr (ext_val (\<lambda>c. v)) (\<lambda>m. m) (Suc (Suc (Suc 0))) (start sample_machine)) = Some 2"
  by (simp add: devintr_def clockintr_def call_def ext_val_def start_def
      sample_machine_def modify_def log_def Let_def)

subsection \<open>Timer interrupts that return\<close>

lemma returns_ext:
  assumes "returns ext"
  obtains r m' where "ext c m = Some (r, m')"
  using assms unfolding returns_def by (metis option.exhaust surj_pair)

lemma returned_SomeE:
  assumes "returned r = Some a"
  obtains s' where "r = Ret a s'"
  using assms by (cases r) simp_all

lemma returned_not_stopped: "returned r = Some a \<Longrightarrow> stopped_with r = None"
  by (cases r) simp_all

lemma seq_Panicked_first:
  "stopped_with (seq r f) \<noteq> Some Panicked \<Longrightarrow> stopped_with r \<noteq> Some Panicked"
  by (cases r) simp_all

lemma clockintr_after_locks:
  assumes a1: "ext (Acquire Watchdog_lock) (mach s) = Some (r1, m1)"
    and a2: "ext (Acquire Tickslock) m1 = Some (r2, m2)"
    and sB: "sB = (log (Acquire Tickslock)
        ((log (Acquire Watchdog_lock) (log Clockintr s))\<lparr>mach := m1\<rparr>))\<lparr>mach := m2\<rparr>"
  shows "clockintr ext s =
      (if watchdog_expired m2 then panic ''watchdog !!!'' sB
       else
         seq (call ext Wakeup (modify (\<lambda>m. m\<lparr>ticks := ticks m + 1\<rparr>) sB)) (\<lambda>_ s3.
         seq (call ext (Release Tickslock) s3) (\<lambda>_ s4.
         seq (call ext (Release Watchdog_lock) s4) (\<lambda>_ s5.
         Ret () s5))))"
  using a1 a2 by (simp add: clockintr_def call_Ret sB watchdog_expired_def)

lemma clockintr_result:
  assumes ret: "returns ext"
    and a1: "ext (Acquire Watchdog_lock) (mach s) = Some (r1, m1)"
    and a2: "ext (Acquire Tickslock) m1 = Some (r2, m2)"
    and nf: "\<not> watchdog_expired m2"
  obtains r3 m3 r4 m4 r5 m5 s' where
    "ext Wakeup (m2\<lparr>ticks := ticks m2 + 1\<rparr>) = Some (r3, m3)"
    "ext (Release Tickslock) m3 = Some (r4, m4)"
    "ext (Release Watchdog_lock) m4 = Some (r5, m5)"
    "clockintr ext s = Ret () s'" "mach s' = m5"
proof -
  define sB where "sB = (log (Acquire Tickslock)
        ((log (Acquire Watchdog_lock) (log Clockintr s))\<lparr>mach := m1\<rparr>))\<lparr>mach := m2\<rparr>"
  obtain r3 m3 where e3: "ext Wakeup (m2\<lparr>ticks := ticks m2 + 1\<rparr>) = Some (r3, m3)"
    using ret by (rule returns_ext)
  obtain r4 m4 where e4: "ext (Release Tickslock) m3 = Some (r4, m4)"
    using ret by (rule returns_ext)
  obtain r5 m5 where e5: "ext (Release Watchdog_lock) m4 = Some (r5, m5)"
    using ret by (rule returns_ext)
  define s3 where
    "s3 = (log Wakeup (modify (\<lambda>m. m\<lparr>ticks := ticks m + 1\<rparr>) sB))\<lparr>mach := m3\<rparr>"
  define s4 where "s4 = (log (Release Tickslock) s3)\<lparr>mach := m4\<rparr>"
  define s5 where "s5 = (log (Release Watchdog_lock) s4)\<lparr>mach := m5\<rparr>"
  have c3: "call ext Wakeup (modify (\<lambda>m. m\<lparr>ticks := ticks m + 1\<rparr>) sB) = Ret r3 s3"
    using e3 by (simp add: call_Ret s3_def sB_def)
  have c4: "call ext (Release Tickslock) s3 = Ret r4 s4"
    using e4 by (simp add: call_Ret s4_def s3_def)
  have c5: "call ext (Release Watchdog_lock) s4 = Ret r5 s5"
    using e5 by (simp add: call_Ret s5_def s4_def)
  have "clockintr ext s = Ret () s5"
    using nf by (simp add: clockintr_after_locks [OF a1 a2 sB_def] c3 c4 c5)
  moreover have "mach s5 = m5" by (simp add: s5_def)
  ultimately show ?thesis using e3 e4 e5 by (rule that [rotated 3])
qed

lemma clockintr_returns:
  assumes ret: "returns ext" and k: "keeps_ticks ext"
    and a1: "ext (Acquire Watchdog_lock) (mach s) = Some (r1, m1)"
    and a2: "ext (Acquire Tickslock) m1 = Some (r2, m2)"
    and nf: "\<not> watchdog_expired m2"
  shows "returned (clockintr ext s) = Some ()
    \<and> ticks (mach (final (clockintr ext s))) = ticks (mach s) + 1"
proof -
  obtain s' where c: "clockintr ext s = Ret () s'"
    using ret a1 a2 nf by (rule clockintr_result)
  from clockintr_ticks [OF k c] c show ?thesis by simp
qed

lemma clockintr_total:
  assumes ret: "returns ext" and np: "stopped_with (clockintr ext s) \<noteq> Some Panicked"
  shows "returned (clockintr ext s) = Some ()"
proof -
  obtain r1 m1 where a1: "ext (Acquire Watchdog_lock) (mach s) = Some (r1, m1)"
    using ret by (rule returns_ext)
  obtain r2 m2 where a2: "ext (Acquire Tickslock) m1 = Some (r2, m2)"
    using ret by (rule returns_ext)
  have nf: "\<not> watchdog_expired m2"
    using np by (auto simp: clockintr_after_locks [OF a1 a2 refl] panic_def)
  obtain s' where "clockintr ext s = Ret () s'"
    using ret a1 a2 nf by (rule clockintr_result)
  then show ?thesis by simp
qed

lemma clockintr_off:
  assumes ret: "returns ext" and off: "keeps_watchdog_off ext"
    and z: "watchdog_time (mach s) = 0"
  shows "returned (clockintr ext s) = Some ()
    \<and> watchdog_time (mach (final (clockintr ext s))) = 0"
proof -
  have step: "watchdog_time m' = 0" if "ext c m = Some (r, m')" "watchdog_time m = 0" for c m r m'
    using off that unfolding keeps_watchdog_off_def by blast
  obtain r1 m1 where a1: "ext (Acquire Watchdog_lock) (mach s) = Some (r1, m1)"
    using ret by (rule returns_ext)
  obtain r2 m2 where a2: "ext (Acquire Tickslock) m1 = Some (r2, m2)"
    using ret by (rule returns_ext)
  have z2: "watchdog_time m2 = 0"
    using step [OF a2 step [OF a1 z]] .
  then have nf: "\<not> watchdog_expired m2"
    by (simp add: watchdog_expired_def)
  obtain r3 m3 r4 m4 r5 m5 s' where
    e3: "ext Wakeup (m2\<lparr>ticks := ticks m2 + 1\<rparr>) = Some (r3, m3)"
    and e4: "ext (Release Tickslock) m3 = Some (r4, m4)"
    and e5: "ext (Release Watchdog_lock) m4 = Some (r5, m5)"
    and c: "clockintr ext s = Ret () s'" and m: "mach s' = m5"
    using ret a1 a2 nf by (rule clockintr_result)
  have "watchdog_time m5 = 0"
    using step [OF e5 step [OF e4 step [OF e3]]] z2 by simp
  with c m show ?thesis by simp
qed

lemma devintr_timer_unfold:
  assumes t: "scause (mach s) = 0x8000000000000001"
    and cp: "ext Cpuid (mach s) = Some (cpu, mc)"
    and sC: "sC = (log Cpuid (log Devintr s))\<lparr>mach := mc\<rparr>"
  shows "devintr h ext s =
      seq (if cpu = 0 then clockintr ext sC else Ret () sC) (\<lambda>_ s2.
        Ret 2 (modify (\<lambda>m. m\<lparr>sip := sip m AND NOT 2\<rparr>) s2))"
  using t cp by (simp add: devintr_def Let_def call_Ret sC)

lemma devintr_timer_returns:
  assumes ret: "returns ext" and k: "keeps_ticks ext"
    and t: "scause (mach s) = 0x8000000000000001"
    and cp: "ext Cpuid (mach s) = Some (cpu, mc)"
  shows "(cpu = 0 \<and> ext (Acquire Watchdog_lock) mc = Some (r1, m1)
           \<and> ext (Acquire Tickslock) m1 = Some (r2, m2) \<and> \<not> watchdog_expired m2
          \<longrightarrow> returned (devintr h ext s) = Some 2
            \<and> ticks (mach (final (devintr h ext s))) = ticks (mach s) + 1)
    \<and> (cpu \<noteq> 0
          \<longrightarrow> returned (devintr h ext s) = Some 2
            \<and> ticks (mach (final (devintr h ext s))) = ticks (mach s))"
proof -
  define sC where "sC = (log Cpuid (log Devintr s))\<lparr>mach := mc\<rparr>"
  note dv = devintr_timer_unfold [where ext = ext and h = h, OF t cp sC_def]
  have tc: "ticks mc = ticks (mach s)"
    using k cp unfolding keeps_ticks_def by blast
  have mC: "mach sC = mc" by (simp add: sC_def)
  have zero: "returned (devintr h ext s) = Some 2
            \<and> ticks (mach (final (devintr h ext s))) = ticks (mach s) + 1"
    if c0: "cpu = 0" and a1: "ext (Acquire Watchdog_lock) mc = Some (r1, m1)"
      and a2: "ext (Acquire Tickslock) m1 = Some (r2, m2)" and nf: "\<not> watchdog_expired m2"
  proof -
    from clockintr_returns [OF ret k, of sC r1 m1 r2 m2] a1 a2 nf mC
    have r: "returned (clockintr ext sC) = Some ()"
      and tk: "ticks (mach (final (clockintr ext sC))) = ticks mc + 1"
      by simp_all
    from r obtain s' where c: "clockintr ext sC = Ret () s'"
      by (rule returned_SomeE)
    then have "devintr h ext s = Ret 2 (modify (\<lambda>m. m\<lparr>sip := sip m AND NOT 2\<rparr>) s')"
      using c0 by (simp add: dv)
    then show ?thesis using tk tc c by simp
  qed
  have other: "returned (devintr h ext s) = Some 2
            \<and> ticks (mach (final (devintr h ext s))) = ticks (mach s)"
    if "cpu \<noteq> 0"
    using that tc by (simp add: dv sC_def)
  from zero other show ?thesis by blast
qed

lemma devintr_timer_total:
  assumes ret: "returns ext" and t: "scause (mach s) = 0x8000000000000001"
    and np: "stopped_with (devintr h ext s) \<noteq> Some Panicked"
  shows "returned (devintr h ext s) = Some 2"
proof -
  obtain cpu mc where cp: "ext Cpuid (mach s) = Some (cpu, mc)"
    using ret by (rule returns_ext)
  define sC where "sC = (log Cpuid (log Devintr s))\<lparr>mach := mc\<rparr>"
  note dv = devintr_timer_unfold [where ext = ext and h = h, OF t cp sC_def]
  show ?thesis
  proof (cases "cpu = 0")
    case True
    have "stopped_with (clockintr ext sC) \<noteq> Some Panicked"
      using np True unfolding dv by (auto dest: seq_Panicked_first)
    with ret have "returned (clockintr ext sC) = Some ()"
      by (rule clockintr_total)
    then obtain s' where "clockintr ext sC = Ret () s'"
      by (rule returned_SomeE)
    then show ?thesis using True by (simp add: dv)
  next
    case False
    then show ?thesis by (simp add: dv)
  qed
qed

lemma devintr_timer_other_core:
  assumes ret: "returns ext" and t: "scause (mach s) = 0x8000000000000001"
    and nz: "cpuid_not_zero ext"
  shows "returned (devintr h ext s) = Some 2"
proof -
  obtain cpu mc where cp: "ext Cpuid (mach s) = Some (cpu, mc)"
    using ret by (rule returns_ext)
  have "cpu \<noteq> 0"
    using nz cp unfolding cpuid_not_zero_def by blast
  then show ?thesis
    by (simp add: devintr_timer_unfold [where ext = ext and h = h, OF t cp refl])
qed

lemma devintr_timer_off:
  assumes ret: "returns ext" and off: "keeps_watchdog_off ext"
    and t: "scause (mach s) = 0x8000000000000001"
    and z: "watchdog_time (mach s) = 0"
  shows "returned (devintr h ext s) = Some 2
    \<and> watchdog_time (mach (final (devintr h ext s))) = 0"
proof -
  obtain cpu mc where cp: "ext Cpuid (mach s) = Some (cpu, mc)"
    using ret by (rule returns_ext)
  define sC where "sC = (log Cpuid (log Devintr s))\<lparr>mach := mc\<rparr>"
  note dv = devintr_timer_unfold [where ext = ext and h = h, OF t cp sC_def]
  have zc: "watchdog_time (mach sC) = 0"
    using off cp z unfolding keeps_watchdog_off_def sC_def by auto
  show ?thesis
  proof (cases "cpu = 0")
    case True
    from clockintr_off [OF ret off zc]
    have r: "returned (clockintr ext sC) = Some ()"
      and w: "watchdog_time (mach (final (clockintr ext sC))) = 0"
      by simp_all
    from r obtain s' where c: "clockintr ext sC = Ret () s'"
      by (rule returned_SomeE)
    then have "devintr h ext s = Ret 2 (modify (\<lambda>m. m\<lparr>sip := sip m AND NOT 2\<rparr>) s')"
      using True by (simp add: dv)
    then show ?thesis using w c by simp
  next
    case False
    then show ?thesis using zc by (simp add: dv)
  qed
qed

lemma timer_events_ticks:
  assumes k: "keeps_ticks ext" and e: "\<forall>m. ticks (env m) = ticks m"
    and r: "timer_events h ext env n s = Ret w s2"
  shows "(cpuid_is_zero ext \<longrightarrow> ticks (mach s2) = ticks (mach s) + of_nat n)
    \<and> (cpuid_not_zero ext \<longrightarrow> ticks (mach s2) = ticks (mach s))"
  using r
proof (induction n arbitrary: s w s2)
  case 0
  then show ?case by simp
next
  case (Suc n)
  let ?s = "modify (\<lambda>m. (env m)\<lparr>scause := 0x8000000000000001\<rparr>) s"
  from Suc.prems obtain a t where d: "devintr h ext ?s = Ret a t"
    and rest: "timer_events h ext env n t = Ret w s2"
    by (auto elim: seq_Ret)
  have "(cpuid_is_zero ext \<longrightarrow> ticks (mach t) = ticks (mach ?s) + 1)
    \<and> (cpuid_not_zero ext \<longrightarrow> ticks (mach t) = ticks (mach ?s))"
    using devintr_timer_ticks [OF k _ d] by simp
  with Suc.IH [OF rest] e show ?case by simp
qed

lemma timer_events_total:
  assumes ret: "returns ext"
    and np: "stopped_with (timer_events h ext env n s) \<noteq> Some Panicked"
  shows "returned (timer_events h ext env n s) = Some 2"
  using np
proof (induction n arbitrary: s)
  case 0
  then show ?case by simp
next
  case (Suc n)
  let ?s = "modify (\<lambda>m. (env m)\<lparr>scause := 0x8000000000000001\<rparr>) s"
  have "stopped_with (devintr h ext ?s) \<noteq> Some Panicked"
    using Suc.prems by (auto dest: seq_Panicked_first)
  then have "returned (devintr h ext ?s) = Some 2"
    using ret by (intro devintr_timer_total) simp_all
  then obtain t where d: "devintr h ext ?s = Ret 2 t"
    by (rule returned_SomeE)
  with Suc.prems have "stopped_with (timer_events h ext env n t) \<noteq> Some Panicked"
    by simp
  from Suc.IH [OF this] d show ?case by simp
qed

lemma timer_events_other_core:
  assumes ret: "returns ext" and nz: "cpuid_not_zero ext"
  shows "returned (timer_events h ext env n s) = Some 2"
proof (induction n arbitrary: s)
  case 0
  then show ?case by simp
next
  case (Suc n)
  let ?s = "modify (\<lambda>m. (env m)\<lparr>scause := 0x8000000000000001\<rparr>) s"
  have "returned (devintr h ext ?s) = Some 2"
    using ret _ nz by (rule devintr_timer_other_core) simp
  then obtain t where d: "devintr h ext ?s = Ret 2 t"
    by (rule returned_SomeE)
  from Suc.IH [of t] d show ?case by simp
qed

lemma timer_events_off:
  assumes ret: "returns ext" and off: "keeps_watchdog_off ext"
    and eo: "\<forall>m. watchdog_time m = 0 \<longrightarrow> watchdog_time (env m) = 0"
    and z: "watchdog_time (mach s) = 0"
  shows "returned (timer_events h ext env n s) = Some 2"
  using z
proof (induction n arbitrary: s)
  case 0
  then show ?case by simp
next
  case (Suc n)
  let ?s = "modify (\<lambda>m. (env m)\<lparr>scause := 0x8000000000000001\<rparr>) s"
  have zs: "watchdog_time (mach ?s) = 0"
    using eo Suc.prems by simp
  from devintr_timer_off [OF ret off _ zs, of h]
  have r: "returned (devintr h ext ?s) = Some 2"
    and w: "watchdog_time (mach (final (devintr h ext ?s))) = 0"
    by simp_all
  from r obtain t where d: "devintr h ext ?s = Ret 2 t"
    by (rule returned_SomeE)
  with w have "watchdog_time (mach t) = 0" by simp
  from Suc.IH [OF this] d show ?case by simp
qed

subsection \<open>The three paths of devintr\<close>

lemma devintr_external_path:
  assumes x: "scause (mach s) AND 0x8000000000000000 \<noteq> 0 \<and> scause (mach s) AND 0xff = 9"
  shows "take 2 (new_calls s (devintr h ext s)) = [Devintr, Plic_claim]
    \<and> returned (devintr h ext s) \<in> {None, Some 1}
    \<and> (returns ext \<longrightarrow> returned (devintr h ext s) = Some 1)"
proof -
  let ?T = "\<lambda>m::machine. True"
  let ?A = "\<lambda>c::call. True"
  let ?body = "seq (call ext Plic_claim (log Devintr s)) (\<lambda>irq s1.
        seq (if irq = UART0_IRQ h then call ext Uartintr s1
             else if irq = VIRTIO0_IRQ h \<or> irq = VIRTIO1_IRQ h then
               call ext (Virtio_disk_intr (irq - VIRTIO0_IRQ h)) s1
             else Ret 0 s1) (\<lambda>_ s2.
        seq (if irq \<noteq> 0 then call ext (Plic_complete irq) s2 else Ret 0 s2) (\<lambda>_ s3.
        Ret (1::cint) s3)))"
  have dv: "devintr h ext s = ?body"
    using x by (simp add: devintr_def Let_def)
  let ?b = "log Plic_claim (log Devintr s)"
  have "grows ?T ?A ?b ?b" by (simp add: grows_def)
  then have "ends ?T ?A ?b ?body"
    by (auto intro!: ends_seq ends_call_logged grows_log ends_Ret frame_True)
  then have "take (length [(Devintr, mach s), (Plic_claim, mach s)]) (new_trace s ?body)
      = [(Devintr, mach s), (Plic_claim, mach s)]"
    by (rule ends_after) simp
  then have p1: "take 2 (new_calls s (devintr h ext s)) = [Devintr, Plic_claim]"
    by (simp add: dv new_calls_def take_map numeral_2_eq_2)
  have p2: "returned ?body \<in> insert None {Some 1}"
    by (intro returned_seq) simp
  have p3: "returned ?body = Some 1" if "returns ext"
    using that by (intro returned_seq_Some) (simp_all add: returns_call_stopped)
  from p1 p2 p3 show ?thesis by (simp add: dv)
qed

lemma devintr_timer_path:
  assumes t: "scause (mach s) = 0x8000000000000001"
  shows "take 2 (new_calls s (devintr h ext s)) = [Devintr, Cpuid]
    \<and> list_all (\<lambda>c. c \<noteq> Plic_claim) (new_calls s (devintr h ext s))
    \<and> returned (devintr h ext s) \<in> {None, Some 2}"
proof -
  let ?T = "\<lambda>m::machine. True"
  let ?Q = "\<lambda>c. c \<noteq> Plic_claim"
  let ?body = "seq (call ext Cpuid (log Devintr s)) (\<lambda>cpu s1.
        seq (if cpu = 0 then clockintr ext s1 else Ret () s1) (\<lambda>_ s2.
        Ret (2::cint) (modify (\<lambda>m. m\<lparr>sip := sip m AND NOT 2\<rparr>) s2)))"
  have dv: "devintr h ext s = ?body"
    using t by (simp add: devintr_def Let_def)
  have cq: "?Q c" if "clockintr_call c" for c
    using that by (cases c) simp_all
  have ck: "ends ?T ?Q b (clockintr ext s')" if "grows ?T ?Q b s'" for b s'
    using that by (auto intro!: clockintr_ends grows_log frame_True pc_only_True cq)
  have e: "ends ?T ?Q b ?body" if "grows ?T ?Q b (log Cpuid (log Devintr s))" for b
    using that
    by (auto intro!: ends_seq ends_call_logged ends_Ret grows_modify ck frame_True)
  have "ends ?T ?Q (log Cpuid (log Devintr s)) ?body"
    by (rule e) (simp add: grows_def)
  then have "take (length [(Devintr, mach s), (Cpuid, mach s)]) (new_trace s ?body)
      = [(Devintr, mach s), (Cpuid, mach s)]"
    by (rule ends_after) simp
  then have p1: "take 2 (new_calls s (devintr h ext s)) = [Devintr, Cpuid]"
    by (simp add: dv new_calls_def take_map numeral_2_eq_2)
  have "ends ?T ?Q s ?body"
    by (rule e) (simp add: grows_def)
  then have p2: "list_all ?Q (new_calls s (devintr h ext s))"
    unfolding dv by (rule ends_new_calls)
  have p3: "returned ?body \<in> insert None {Some 2}"
    by (intro returned_seq) simp
  from p1 p2 p3 show ?thesis by (simp add: dv)
qed

lemma devintr_unrecognized:
  assumes "\<not> (scause (mach s) AND 0x8000000000000000 \<noteq> 0 \<and> scause (mach s) AND 0xff = 9)"
    and "scause (mach s) \<noteq> 0x8000000000000001"
  shows "devintr h ext s = Ret 0 (log Devintr s)"
  using assms by (auto simp: devintr_def Let_def)

section \<open>Sample runs\<close>

text \<open>
  Whole runs of usertrap for the sample process, evaluated: a syscall, a timer interrupt
  on the timekeeping core, and a load page fault the allocator refuses with \<open>-1\<close>.
\<close>

lemma usertrap_sample_syscall:
  "new_calls (start sample_machine) (usertrap xv6_hdr ext_ok (start sample_machine))
   = [Syscall, Usertrapret, Userret 0x3fffffe000 0x8000000000087f00]
   \<and> stopped_with (usertrap xv6_hdr ext_ok (start sample_machine)) = Some UserMode
   \<and> sepc (mach (final (usertrap xv6_hdr ext_ok (start sample_machine)))) = 0x1004"
  by (simp add: usertrap_def usertrapret_def call_def ext_ok_def ext_val_def start_def
      sample_machine_def sample_proc_def xv6_hdr_def set_epc_def intr_on_def intr_off_def
      new_calls_alt Let_def)

lemma usertrap_sample_timer:
  "new_calls (start (sample_machine\<lparr>scause := 0x8000000000000001\<rparr>))
     (usertrap xv6_hdr ext_ok (start (sample_machine\<lparr>scause := 0x8000000000000001\<rparr>)))
   = [Devintr, Cpuid, Clockintr, Acquire Watchdog_lock, Acquire Tickslock, Wakeup,
      Release Tickslock, Release Watchdog_lock, Yield, Usertrapret,
      Userret 0x3fffffe000 0x8000000000087f00]
   \<and> ticks (mach (final
       (usertrap xv6_hdr ext_ok (start (sample_machine\<lparr>scause := 0x8000000000000001\<rparr>))))) = 6"
  by (simp add: usertrap_def usertrapret_def devintr_def clockintr_def call_def ext_ok_def
      ext_val_def start_def sample_machine_def sample_proc_def xv6_hdr_def set_epc_def
      intr_off_def new_calls_alt Let_def)

lemma usertrap_sample_page_fault_failed:
  "new_calls (start (sample_machine\<lparr>scause := 0xd\<rparr>))
     (usertrap xv6_hdr (ext_val (\<lambda>c. - 1)) (start (sample_machine\<lparr>scause := 0xd\<rparr>)))
   = [Handle_page_fault 0xd 0x2abc 0x1000, Acquire Vma_lock,
      Printf ''handle_page_fault pid=%d (%s), scause=%p, stval=%p, sepc=%p\<newline>''
        [PI 3, PS ''sh'', PU 0xd, PU 0x2abc, PU 0x1000],
      Do_allocate 0x87f00000 0x2000 0xd, Release Vma_lock,
      Printf ''Could not find VMA associated with addr=%p\<newline>'' [PU 0x2000],
      Proc_vmprint,
      Printf ''unrecoverable page fault by pid=%d at sepc=%p stval=%p scause=%x\<newline>''
        [PI 3, PU 0x1000, PU 0x2abc, PU 0xd],
      Exit (- 1)]"
  by (simp add: usertrap_def handle_page_fault_def call_def ext_val_def start_def
      sample_machine_def sample_proc_def xv6_hdr_def set_epc_def set_killed_def exit_proc_def
      PGROUNDDOWN_def new_calls_alt Let_def)

section \<open>The claims\<close>

text \<open>
  C1. For every cause code with the interrupt (top) bit set, usertrap invokes neither
  the Page Fault Resolver (handle_page_fault, with its allocator do_allocate) nor the
  syscall collaborator; when the entry checks pass (previous privilege user, a current
  process), the first call it makes is devintr.
\<close>

theorem usertrap_interrupt_dispatch:
  assumes "scause (mach s) AND 0x8000000000000000 \<noteq> 0"
  shows "list_all (\<lambda>c. \<not> resolver_or_syscall c) (new_calls s (usertrap h ext s))
    \<and> (sstatus (mach s) AND SSTATUS_SPP h = 0 \<and> has_proc (mach s)
         \<longrightarrow> take 1 (new_calls s (usertrap h ext s)) = [Devintr])"
proof -
  let ?Q = "\<lambda>c. \<not> resolver_or_syscall c"
  let ?I = "\<lambda>m::machine. True"
  have fr: "frame ?I ext" by (simp add: frame_def)
  have pc: "pc_only ?I" by (simp add: pc_only_def)
  have d: "?Q c" if "devintr_call c" for c
    using that by (cases c) simp_all
  have u: "?Q c" if "usertrapret_call c" for c
    using that by (cases c) simp_all
  have dv: "ends ?I ?Q s0 (devintr h ext s')" if "grows ?I ?Q s0 (log Devintr s')" for s0 s'
    using that fr pc d by (rule devintr_ends)
  have ur: "ends ?I ?Q s0 (usertrapret h ext s')" if "grows ?I ?Q s0 (log Usertrapret s')" for s0 s'
    using that pc u by (rule usertrapret_ends)
  have ns: "scause (mach s) \<noteq> 8 \<and> scause (mach s) \<noteq> 0xf \<and> scause (mach s) \<noteq> 0xd
      \<and> scause (mach s) \<noteq> 0xc"
    using assms by (rule interrupt_not_sync)
  have g: "grows ?I ?Q s s" by (simp add: grows_def)
  have "ends ?I ?Q s (usertrap h ext s)"
    unfolding usertrap_def Let_def using ns g
    by (auto intro!: ends_seq ends_call ends_panic ends_exit ends_Ret ends_Stop grows_log
        grows_modify dv ur fr simp: set_epc_def)
  then have no: "list_all ?Q (new_calls s (usertrap h ext s))"
    by (rule ends_new_calls)
  have first: "take 1 (new_calls s (usertrap h ext s)) = [Devintr]"
    if spp: "sstatus (mach s) AND SSTATUS_SPP h = 0" and hp: "has_proc (mach s)"
  proof -
    define s2 where "s2 = modify (\<lambda>m. set_epc (sepc m) m) (modify (\<lambda>m. m\<lparr>stvec := kernelvec h\<rparr>) s)"
    have g1: "grows ?I ?Q (log Devintr s2) (log Devintr s2)" by (simp add: grows_def)
    have "ends ?I ?Q (log Devintr s2) (usertrap h ext s)"
      unfolding usertrap_def Let_def using ns g1 spp hp
      by (auto intro!: ends_seq ends_call ends_exit ends_Ret grows_log
          grows_modify dv ur fr simp: set_epc_def s2_def)
    then have "take (length [(Devintr, mach s2)]) (new_trace s (usertrap h ext s)) = [(Devintr, mach s2)]"
      by (rule ends_after) (simp add: s2_def)
    then show ?thesis by (simp add: new_calls_def take_map)
  qed
  from no first show ?thesis by blast
qed

text \<open>C1 at the supervisor external interrupt, on the sample platform.\<close>

theorem usertrap_interrupt_dispatch_witness:
  "list_all (\<lambda>c. \<not> resolver_or_syscall c)
     (new_calls (start (sample_machine\<lparr>scause := 0x8000000000000009\<rparr>))
        (usertrap xv6_hdr ext_ok (start (sample_machine\<lparr>scause := 0x8000000000000009\<rparr>))))
   \<and> take 1 (new_calls (start (sample_machine\<lparr>scause := 0x8000000000000009\<rparr>))
        (usertrap xv6_hdr ext_ok (start (sample_machine\<lparr>scause := 0x8000000000000009\<rparr>))))
     = [Devintr]"
  using usertrap_interrupt_dispatch
    [of "start (sample_machine\<lparr>scause := 0x8000000000000009\<rparr>)" xv6_hdr ext_ok]
  by (simp add: start_def sample_machine_def xv6_hdr_def)

text \<open>
  C2. When usertrap, its entry checks passed, handles a syscall cause (scause = 8) for a
  process not marked killed, the first call it makes is the syscall collaborator, and
  the saved program counter is then the trapped pc plus 4 (in 64-bit arithmetic). When
  it handles one of the three page-fault causes, the first call is handle_page_fault
  and, no collaborator writing the saved program counter, it equals the trapped pc at
  every call of the run and at its end.
\<close>

theorem usertrap_saved_pc:
  assumes spp: "sstatus (mach s) AND SSTATUS_SPP h = 0" and hp: "has_proc (mach s)"
  shows "(scause (mach s) = 8 \<and> killed (myproc (mach s)) = 0
           \<longrightarrow> take 1 (new_calls_pc s (usertrap h ext s)) = [(Syscall, sepc (mach s) + 4)])
    \<and> (scause (mach s) \<in> {0xc, 0xd, 0xf} \<and> keeps_pc ext
           \<longrightarrow> take 1 (new_calls s (usertrap h ext s))
                 = [Handle_page_fault (scause (mach s)) (stval (mach s)) (sepc (mach s))]
               \<and> list_all (\<lambda>(c, pc). pc = sepc (mach s)) (new_calls_pc s (usertrap h ext s))
               \<and> epc (tf (myproc (mach (final (usertrap h ext s))))) = sepc (mach s))"
proof -
  let ?T = "\<lambda>m::machine. True"
  let ?A = "\<lambda>c::call. True"
  define s2 where
    "s2 = modify (\<lambda>m. set_epc (sepc m) m) (modify (\<lambda>m. m\<lparr>stvec := kernelvec h\<rparr>) s)"
  have ur: "ends I ?A s0 (usertrapret h ext s')"
    if "grows I ?A s0 s'" "pc_only I" for I s0 s'
    using that by (auto intro!: usertrapret_ends grows_log)
  have sys: "take 1 (new_calls_pc s (usertrap h ext s)) = [(Syscall, sepc (mach s) + 4)]"
    if c: "scause (mach s) = 8" and k: "killed (myproc (mach s)) = 0"
  proof -
    define s4 where
      "s4 = modify (intr_on h) (modify (\<lambda>m. set_epc (epc (tf (myproc m)) + 4) m) s2)"
    have g: "grows ?T ?A (log Syscall s4) (log Syscall s4)" by (simp add: grows_def)
    have "ends ?T ?A (log Syscall s4) (usertrap h ext s)"
      unfolding usertrap_def Let_def using g spp hp c k
      by (auto intro!: ends_seq ends_call_logged grows_log ends_exit ends_Ret ur frame_True
          pc_only_True simp: set_epc_def s2_def s4_def intr_on_def)
    then have "take (length [(Syscall, mach s4)]) (new_trace s (usertrap h ext s))
        = [(Syscall, mach s4)]"
      by (rule ends_after) (simp add: s2_def s4_def)
    then have "take 1 (new_calls_pc s (usertrap h ext s))
        = [(Syscall, epc (tf (myproc (mach s4))))]"
      by (simp add: new_calls_pc_def take_map)
    then show ?thesis
      by (simp add: s4_def s2_def intr_on_def set_epc_def)
  qed
  have pf: "take 1 (new_calls s (usertrap h ext s))
                 = [Handle_page_fault (scause (mach s)) (stval (mach s)) (sepc (mach s))]
               \<and> list_all (\<lambda>(c, pc). pc = sepc (mach s)) (new_calls_pc s (usertrap h ext s))
               \<and> epc (tf (myproc (mach (final (usertrap h ext s))))) = sepc (mach s)"
    if c: "scause (mach s) \<in> {0xc, 0xd, 0xf}" and kp: "keeps_pc ext"
  proof -
    let ?I = "\<lambda>m. epc (tf (myproc m)) = sepc (mach s)"
    let ?H = "Handle_page_fault (scause (mach s)) (stval (mach s)) (sepc (mach s))"
    have fr: "frame ?I ext" using kp by (rule keeps_pc_frame)
    have pc: "pc_only ?I" by (rule pc_only_eq)
    have hpf: "ends ?I ?A s0 (handle_page_fault h ext cause va p s')"
      if "grows ?I ?A s0 (log (Handle_page_fault cause va p) s')" for s0 s' cause va p
      using that fr pc by (rule handle_page_fault_ends) simp
    have g: "grows ?I ?A (log ?H s2) (log ?H s2)"
      by (simp add: grows_def s2_def set_epc_def)
    have e: "ends ?I ?A (log ?H s2) (usertrap h ext s)"
      unfolding usertrap_def Let_def using g spp hp c
      by (auto intro!: ends_seq ends_call ends_exit ends_Ret ur hpf fr pc
          simp: set_epc_def s2_def)
    then have "take (length [(?H, mach s2)]) (new_trace s (usertrap h ext s)) = [(?H, mach s2)]"
      by (rule ends_after) (simp add: s2_def)
    then have t1: "take 1 (new_calls s (usertrap h ext s)) = [?H]"
      by (simp add: new_calls_def take_map)
    have g2: "grows ?I ?A s2 (log ?H s2)"
      by (simp add: grows_def s2_def set_epc_def)
    have "ends ?I ?A s2 (usertrap h ext s)"
      unfolding usertrap_def Let_def using g2 spp hp c
      by (auto intro!: ends_seq ends_call ends_exit ends_Ret ur hpf fr pc
          simp: set_epc_def s2_def)
    then have "list_all (\<lambda>(c, m). ?I m) (new_trace s2 (usertrap h ext s))
        \<and> ?I (mach (final (usertrap h ext s)))"
      by (rule ends_new_trace)
    moreover have "new_trace s2 (usertrap h ext s) = new_trace s (usertrap h ext s)"
      by (simp add: new_trace_def s2_def)
    ultimately have "list_all (\<lambda>(c, pc). pc = sepc (mach s)) (new_calls_pc s (usertrap h ext s))
        \<and> ?I (mach (final (usertrap h ext s)))"
      by (simp add: new_calls_pc_def list_all_iff split_beta)
    with t1 show ?thesis by simp
  qed
  from sys pf show ?thesis by blast
qed

text \<open>C2 for the sample process: a syscall, and a load page fault.\<close>

theorem usertrap_saved_pc_witness:
  "take 1 (new_calls_pc (start sample_machine) (usertrap xv6_hdr ext_ok (start sample_machine)))
     = [(Syscall, 0x1004)]
   \<and> take 1 (new_calls (start (sample_machine\<lparr>scause := 0xd\<rparr>))
        (usertrap xv6_hdr ext_ok (start (sample_machine\<lparr>scause := 0xd\<rparr>))))
     = [Handle_page_fault 0xd 0x2abc 0x1000]
   \<and> list_all (\<lambda>(c, pc). pc = 0x1000)
        (new_calls_pc (start (sample_machine\<lparr>scause := 0xd\<rparr>))
          (usertrap xv6_hdr ext_ok (start (sample_machine\<lparr>scause := 0xd\<rparr>))))
   \<and> epc (tf (myproc (mach (final
          (usertrap xv6_hdr ext_ok (start (sample_machine\<lparr>scause := 0xd\<rparr>))))))) = 0x1000"
  using usertrap_saved_pc [of "start sample_machine" xv6_hdr ext_ok]
    usertrap_saved_pc [of "start (sample_machine\<lparr>scause := 0xd\<rparr>)" xv6_hdr ext_ok]
  by (simp add: start_def sample_machine_def sample_proc_def xv6_hdr_def keeps_pc_def
      ext_ok_def ext_val_def)

text \<open>
  C3. When usertrap, its entry checks passed, handles one of the three page-fault
  causes (0xf, 0xd, 0xc), every call of the allocator do_allocate in the run has the
  faulting address stval rounded down to its page boundary as its address, and the
  cause as its cause; and when the collaborators return, the fourth call of the run
  (after handle_page_fault, acquire and printf) is that call of do_allocate.
\<close>

theorem usertrap_page_fault_address:
  assumes spp: "sstatus (mach s) AND SSTATUS_SPP h = 0" and hp: "has_proc (mach s)"
    and c: "scause (mach s) \<in> {0xc, 0xd, 0xf}"
  shows "list_all (allocates_at (PGROUNDDOWN h (stval (mach s))) (scause (mach s)))
           (new_calls s (usertrap h ext s))
    \<and> (returns ext \<longrightarrow>
         map alloc_args (take 4 (new_calls s (usertrap h ext s)))
         = [None, None, None, Some (PGROUNDDOWN h (stval (mach s)), scause (mach s))])"
proof -
  let ?T = "\<lambda>m::machine. True"
  let ?A = "\<lambda>c::call. True"
  let ?Q = "allocates_at (PGROUNDDOWN h (stval (mach s))) (scause (mach s))"
  define s2 where
    "s2 = modify (\<lambda>m. set_epc (sepc m) m) (modify (\<lambda>m. m\<lparr>stvec := kernelvec h\<rparr>) s)"
  note ut = usertrap_page_fault_unfold [OF spp hp c, of ext, folded s2_def]
  have tail: "ends ?T Q b (seq (seq r (\<lambda>_ s3. Ret (0::cint) s3))
       (\<lambda>which_dev s6.
               if killed (myproc (mach s6)) \<noteq> 0 then exit_proc (- 1) s6
               else
                 seq (if which_dev = 2 then call ext Yield s6 else Ret 0 s6) (\<lambda>_ s7.
                 usertrapret h ext s7)))"
    if "ends ?T Q b r" "Q (Exit (- 1))" "Q Yield" "Q Usertrapret" "\<And>a b. Q (Userret a b)"
    for Q b and r :: "cint res"
    using that
    by (auto intro!: ends_seq ends_call ends_exit ends_Ret usertrapret_any frame_True)
  have hq: "?Q c" if "hpf_call h (scause (mach s)) (stval (mach s)) c" for c
    using that by (cases c) simp_all
  have "grows ?T ?Q s (log (Handle_page_fault (scause (mach s)) (stval (mach s)) (sepc (mach s))) s2)"
    by (simp add: grows_def s2_def)
  then have "ends ?T ?Q s
      (handle_page_fault h ext (scause (mach s)) (stval (mach s)) (sepc (mach s)) s2)"
    using frame_True pc_only_True hq by (rule handle_page_fault_ends)
  then have "ends ?T ?Q s (usertrap h ext s)"
    unfolding ut by (rule tail) simp_all
  then have all: "list_all ?Q (new_calls s (usertrap h ext s))"
    by (rule ends_new_calls)
  have ex: "map alloc_args (take 4 (new_calls s (usertrap h ext s)))
         = [None, None, None, Some (PGROUNDDOWN h (stval (mach s)), scause (mach s))]"
    if ret: "returns ext"
  proof -
    obtain b pre pt where
      e: "ends ?T ?A b (handle_page_fault h ext (scause (mach s)) (stval (mach s)) (sepc (mach s)) s2)"
      and tb: "trace b = trace s2 @ pre
          @ [(Do_allocate pt (PGROUNDDOWN h (stval (mach s))) (scause (mach s)), mach b)]"
      and pre: "map alloc_args (map fst pre) = [None, None, None]"
      by (rule hpf_reaches_allocate [OF ret, where h = h and s = s2
            and cause = "scause (mach s)" and va = "stval (mach s)" and pc = "sepc (mach s)"])
    have len: "length pre = 3"
      using arg_cong [OF pre, of length] by simp
    from e have "ends ?T ?A b (usertrap h ext s)"
      unfolding ut by (rule tail) simp_all
    moreover have "trace b = trace s @ (pre
          @ [(Do_allocate pt (PGROUNDDOWN h (stval (mach s))) (scause (mach s)), mach b)])"
      using tb by (simp add: s2_def)
    ultimately have "take (length (pre
          @ [(Do_allocate pt (PGROUNDDOWN h (stval (mach s))) (scause (mach s)), mach b)]))
        (new_trace s (usertrap h ext s))
       = pre @ [(Do_allocate pt (PGROUNDDOWN h (stval (mach s))) (scause (mach s)), mach b)]"
      by (rule ends_after)
    then have "take 4 (new_calls s (usertrap h ext s))
       = map fst pre @ [Do_allocate pt (PGROUNDDOWN h (stval (mach s))) (scause (mach s))]"
      using len by (simp add: new_calls_def take_map)
    then show ?thesis using pre by simp
  qed
  from all ex show ?thesis by blast
qed

text \<open>
  C3 for a store page fault at \<open>0x2abc\<close> with 4096-byte pages: do_allocate gets
  \<open>0x2000\<close>.
\<close>

theorem usertrap_page_fault_address_witness:
  "list_all (allocates_at 0x2000 0xf)
     (new_calls (start (sample_machine\<lparr>scause := 0xf\<rparr>))
        (usertrap xv6_hdr ext_ok (start (sample_machine\<lparr>scause := 0xf\<rparr>))))
   \<and> map alloc_args (take 4 (new_calls (start (sample_machine\<lparr>scause := 0xf\<rparr>))
        (usertrap xv6_hdr ext_ok (start (sample_machine\<lparr>scause := 0xf\<rparr>)))))
     = [None, None, None, Some (0x2000, 0xf)]"
  using usertrap_page_fault_address [of "start (sample_machine\<lparr>scause := 0xf\<rparr>)" xv6_hdr ext_ok]
  by (simp add: start_def sample_machine_def xv6_hdr_def returns_def ext_ok_def ext_val_def
      PGROUNDDOWN_def)

text \<open>
  C4. In clockintr, once both locks are taken (\<open>m2\<close> is the machine state then), the
  run halts in \<^verbatim>\<open>panic\<close> exactly when the watchdog threshold is non-zero and the
  elapsed ticks \<^verbatim>\<open>ticks - watchdog_value\<close> (unsigned, 32 bits) exceed it; it then
  halts right after taking the locks, with the tick counter not incremented. With a
  zero threshold no call of the run is a \<^verbatim>\<open>panic\<close>, whatever the elapsed count.
\<close>

theorem clockintr_watchdog:
  assumes a1: "ext (Acquire Watchdog_lock) (mach s) = Some (r1, m1)"
    and a2: "ext (Acquire Tickslock) m1 = Some (r2, m2)"
  shows "(stopped_with (clockintr ext s) = Some Panicked)
       = (watchdog_time m2 \<noteq> 0 \<and> watchdog_time m2 < ticks m2 - watchdog_value m2)
    \<and> (watchdog_time m2 \<noteq> 0 \<and> watchdog_time m2 < ticks m2 - watchdog_value m2
        \<longrightarrow> new_calls s (clockintr ext s)
              = [Clockintr, Acquire Watchdog_lock, Acquire Tickslock, Panic ''watchdog !!!'']
            \<and> ticks (mach (final (clockintr ext s))) = ticks m2)
    \<and> (watchdog_time m2 = 0
        \<longrightarrow> list_all (\<lambda>c. \<not> is_Panic c) (new_calls s (clockintr ext s)))"
proof -
  let ?T = "\<lambda>m::machine. True"
  let ?Q = "\<lambda>c. \<not> is_Panic c"
  define sA where "sA = (log (Acquire Watchdog_lock) (log Clockintr s))\<lparr>mach := m1\<rparr>"
  define sB where "sB = (log (Acquire Tickslock) sA)\<lparr>mach := m2\<rparr>"
  let ?rest = "seq (call ext Wakeup (modify (\<lambda>m. m\<lparr>ticks := ticks m + 1\<rparr>) sB)) (\<lambda>_ s3.
       seq (call ext (Release Tickslock) s3) (\<lambda>_ s4.
       seq (call ext (Release Watchdog_lock) s4) (\<lambda>_ s5.
       Ret () s5)))"
  have c1: "call ext (Acquire Watchdog_lock) (log Clockintr s) = Ret r1 sA"
    using a1 by (simp add: call_Ret sA_def)
  have c2: "call ext (Acquire Tickslock) sA = Ret r2 sB"
    using a2 by (simp add: call_Ret sA_def sB_def)
  have mB: "mach sB = m2" by (simp add: sB_def)
  have ck: "clockintr ext s =
      (if watchdog_time m2 \<noteq> 0 \<and> watchdog_time m2 < ticks m2 - watchdog_value m2
       then panic ''watchdog !!!'' sB else ?rest)"
    by (simp add: clockintr_def c1 c2 mB)
  have np: "stopped_with ?rest \<noteq> Some Panicked"
    by (intro seq_not_Panicked call_not_Panicked) simp
  have tB: "trace sB = trace s @ [(Clockintr, mach s), (Acquire Watchdog_lock, mach s),
      (Acquire Tickslock, m1)]"
    by (simp add: sA_def sB_def)
  have p1: "(stopped_with (clockintr ext s) = Some Panicked)
       = (watchdog_time m2 \<noteq> 0 \<and> watchdog_time m2 < ticks m2 - watchdog_value m2)"
    using np by (simp add: ck panic_def)
  have p2: "new_calls s (clockintr ext s)
              = [Clockintr, Acquire Watchdog_lock, Acquire Tickslock, Panic ''watchdog !!!'']
            \<and> ticks (mach (final (clockintr ext s))) = ticks m2"
    if "watchdog_time m2 \<noteq> 0 \<and> watchdog_time m2 < ticks m2 - watchdog_value m2"
    using that by (simp add: ck panic_def new_calls_def new_trace_def tB mB)
  have p3: "list_all ?Q (new_calls s (clockintr ext s))" if z: "watchdog_time m2 = 0"
  proof -
    have "grows ?T ?Q s sB" by (simp add: grows_def tB)
    then have "ends ?T ?Q s ?rest"
      by (auto intro!: ends_seq ends_call ends_Ret grows_modify frame_True)
    then show ?thesis using z by (simp add: ck ends_new_calls)
  qed
  from p1 p2 p3 show ?thesis by blast
qed

text \<open>
  C4 on the sample machine: threshold 3 with 4 ticks elapsed halts at tick 5; threshold
  0 with \<open>0xFFFFFFF0\<close> ticks elapsed does not.
\<close>

theorem clockintr_watchdog_witness:
  "stopped_with (clockintr ext_ok (start (sample_machine\<lparr>watchdog_time := 3, watchdog_value := 1\<rparr>)))
     = Some Panicked
   \<and> new_calls (start (sample_machine\<lparr>watchdog_time := 3, watchdog_value := 1\<rparr>))
        (clockintr ext_ok (start (sample_machine\<lparr>watchdog_time := 3, watchdog_value := 1\<rparr>)))
     = [Clockintr, Acquire Watchdog_lock, Acquire Tickslock, Panic ''watchdog !!!'']
   \<and> ticks (mach (final
        (clockintr ext_ok (start (sample_machine\<lparr>watchdog_time := 3, watchdog_value := 1\<rparr>))))) = 5
   \<and> stopped_with (clockintr ext_ok (start (sample_machine\<lparr>ticks := 0xFFFFFFF0\<rparr>)))
     \<noteq> Some Panicked
   \<and> list_all (\<lambda>c. \<not> is_Panic c)
        (new_calls (start (sample_machine\<lparr>ticks := 0xFFFFFFF0\<rparr>))
          (clockintr ext_ok (start (sample_machine\<lparr>ticks := 0xFFFFFFF0\<rparr>))))"
  using
    clockintr_watchdog [where ext = ext_ok
      and s = "start (sample_machine\<lparr>watchdog_time := 3, watchdog_value := 1\<rparr>)"
      and ?r1.0 = 0 and ?r2.0 = 0
      and ?m1.0 = "sample_machine\<lparr>watchdog_time := 3, watchdog_value := 1\<rparr>"
      and ?m2.0 = "sample_machine\<lparr>watchdog_time := 3, watchdog_value := 1\<rparr>"]
    clockintr_watchdog [where ext = ext_ok
      and s = "start (sample_machine\<lparr>ticks := 0xFFFFFFF0\<rparr>)"
      and ?r1.0 = 0 and ?r2.0 = 0
      and ?m1.0 = "sample_machine\<lparr>ticks := 0xFFFFFFF0\<rparr>"
      and ?m2.0 = "sample_machine\<lparr>ticks := 0xFFFFFFF0\<rparr>"]
  by (simp add: start_def sample_machine_def ext_ok_def ext_val_def)

text \<open>
  C5. If the process is already marked killed when usertrap handles a syscall trap
  (scause = 8), the run ends in exit: the only call made is \<^verbatim>\<open>exit(-1)\<close>, so
  the syscall collaborator is not invoked, and the saved program counter at that moment
  is the trapped pc, not advanced.
\<close>

theorem usertrap_killed_syscall:
  assumes "sstatus (mach s) AND SSTATUS_SPP h = 0" "has_proc (mach s)"
    "scause (mach s) = 8" "killed (myproc (mach s)) \<noteq> 0"
  shows "stopped_with (usertrap h ext s) = Some Exited
    \<and> new_calls_pc s (usertrap h ext s) = [(Exit (- 1), sepc (mach s))]"
  using assms
  by (simp add: usertrap_def Let_def modify_def set_epc_def exit_proc_def log_def
      new_calls_pc_def new_trace_def)

text \<open>C5 for the sample process, marked killed.\<close>

theorem usertrap_killed_syscall_witness:
  "stopped_with (usertrap xv6_hdr ext_ok (start (set_killed 1 sample_machine))) = Some Exited
    \<and> new_calls_pc (start (set_killed 1 sample_machine))
         (usertrap xv6_hdr ext_ok (start (set_killed 1 sample_machine))) = [(Exit (- 1), 0x1000)]"
  using usertrap_killed_syscall [of "start (set_killed 1 sample_machine)" xv6_hdr ext_ok]
  by (simp add: start_def sample_machine_def sample_proc_def xv6_hdr_def set_killed_def)

text \<open>
  C6. If at the entry of kerneltrap the previous privilege was user (SPP clear) or
  interrupts are enabled, the run halts in \<^verbatim>\<open>panic\<close> and that is its only call, so
  devintr is not invoked. If the previous privilege was supervisor and interrupts are
  disabled, the first call is devintr and no call of the run is one of the two entry
  panics.
\<close>

theorem kerneltrap_entry_checks:
  "(sstatus (mach s) AND SSTATUS_SPP h = 0 \<or> intr_get h (mach s) \<noteq> 0
      \<longrightarrow> stopped_with (kerneltrap h ext s) = Some Panicked
          \<and> new_calls s (kerneltrap h ext s)
            = [Panic (if sstatus (mach s) AND SSTATUS_SPP h = 0
                      then ''kerneltrap: not from supervisor mode''
                      else ''kerneltrap: interrupts enabled'')])
   \<and> (sstatus (mach s) AND SSTATUS_SPP h \<noteq> 0 \<and> intr_get h (mach s) = 0
      \<longrightarrow> take 1 (new_calls s (kerneltrap h ext s)) = [Devintr]
          \<and> list_all (\<lambda>c. \<not> entry_panic c) (new_calls s (kerneltrap h ext s)))"
proof -
  let ?T = "\<lambda>m::machine. True"
  let ?Q = "\<lambda>c. \<not> entry_panic c"
  have halt: "stopped_with (kerneltrap h ext s) = Some Panicked
          \<and> new_calls s (kerneltrap h ext s)
            = [Panic (if sstatus (mach s) AND SSTATUS_SPP h = 0
                      then ''kerneltrap: not from supervisor mode''
                      else ''kerneltrap: interrupts enabled'')]"
    if "sstatus (mach s) AND SSTATUS_SPP h = 0 \<or> intr_get h (mach s) \<noteq> 0"
    using that by (auto simp: kerneltrap_def Let_def panic_def new_calls_alt)
  have ok: "take 1 (new_calls s (kerneltrap h ext s)) = [Devintr]
          \<and> list_all ?Q (new_calls s (kerneltrap h ext s))"
    if pre: "sstatus (mach s) AND SSTATUS_SPP h \<noteq> 0 \<and> intr_get h (mach s) = 0"
  proof -
    have dq: "?Q c" if "devintr_call c" for c
      using that by (cases c) simp_all
    have dvi: "ends ?T ?Q b (devintr h ext s)" if "grows ?T ?Q b (log Devintr s)" for b
      using that frame_True pc_only_True dq by (rule devintr_ends)
    have e: "ends ?T ?Q b (kerneltrap h ext s)" if "grows ?T ?Q b (log Devintr s)" for b
      unfolding kerneltrap_def Let_def using pre dvi [OF that]
      by (auto intro!: ends_seq ends_call ends_panic ends_Ret grows_modify frame_True)
    have "ends ?T ?Q (log Devintr s) (kerneltrap h ext s)"
      by (rule e) (simp add: grows_def)
    then have "take (length [(Devintr, mach s)]) (new_trace s (kerneltrap h ext s))
        = [(Devintr, mach s)]"
      by (rule ends_after) simp
    then have p1: "take 1 (new_calls s (kerneltrap h ext s)) = [Devintr]"
      by (simp add: new_calls_def take_map)
    have "ends ?T ?Q s (kerneltrap h ext s)"
      by (rule e) (simp add: grows_def)
    then have "list_all ?Q (new_calls s (kerneltrap h ext s))"
      by (rule ends_new_calls)
    with p1 show ?thesis by simp
  qed
  from halt ok show ?thesis by blast
qed

text \<open>
  C6 on the sample machine: entered from user mode, entered with interrupts enabled,
  and entered as required on a supervisor external interrupt.
\<close>

theorem kerneltrap_entry_checks_witness:
  "stopped_with (kerneltrap xv6_hdr ext_ok (start sample_machine)) = Some Panicked
   \<and> new_calls (start sample_machine) (kerneltrap xv6_hdr ext_ok (start sample_machine))
     = [Panic ''kerneltrap: not from supervisor mode'']
   \<and> new_calls (start (sample_machine\<lparr>sstatus := 0x102\<rparr>))
        (kerneltrap xv6_hdr ext_ok (start (sample_machine\<lparr>sstatus := 0x102\<rparr>)))
     = [Panic ''kerneltrap: interrupts enabled'']
   \<and> take 1 (new_calls (start (sample_machine\<lparr>sstatus := 0x100, scause := 0x8000000000000009\<rparr>))
        (kerneltrap xv6_hdr ext_ok
          (start (sample_machine\<lparr>sstatus := 0x100, scause := 0x8000000000000009\<rparr>))))
     = [Devintr]
   \<and> list_all (\<lambda>c. \<not> entry_panic c)
       (new_calls (start (sample_machine\<lparr>sstatus := 0x100, scause := 0x8000000000000009\<rparr>))
        (kerneltrap xv6_hdr ext_ok
          (start (sample_machine\<lparr>sstatus := 0x100, scause := 0x8000000000000009\<rparr>))))"
  using
    kerneltrap_entry_checks [of "start sample_machine" xv6_hdr ext_ok]
    kerneltrap_entry_checks [of "start (sample_machine\<lparr>sstatus := 0x102\<rparr>)" xv6_hdr ext_ok]
    kerneltrap_entry_checks
      [of "start (sample_machine\<lparr>sstatus := 0x100, scause := 0x8000000000000009\<rparr>)" xv6_hdr ext_ok]
  by (simp add: start_def sample_machine_def xv6_hdr_def intr_get_def)

text \<open>
  C7. devintr on an external interrupt, \<^verbatim>\<open>plic_claim()\<close> returning \<open>irq\<close>. If
  \<open>irq\<close> is 0 (and the device identifiers are not 0), the calls are devintr and
  plic_claim only: no device service routine, no plic_complete, and devintr returns 1.
  If \<open>irq\<close> is not 0 and the collaborators return, the calls end with
  \<^verbatim>\<open>plic_complete(irq)\<close>, after the service routine of the device if \<open>irq\<close> is
  that of a known device and after none otherwise, and devintr returns 1.
\<close>

theorem devintr_claim:
  assumes x: "scause (mach s) AND 0x8000000000000000 \<noteq> 0 \<and> scause (mach s) AND 0xff = 9"
    and cl: "ext Plic_claim (mach s) = Some (irq, m1)"
  shows "(irq = 0 \<and> UART0_IRQ h \<noteq> 0 \<and> VIRTIO0_IRQ h \<noteq> 0 \<and> VIRTIO1_IRQ h \<noteq> 0
          \<longrightarrow> new_calls s (devintr h ext s) = [Devintr, Plic_claim]
              \<and> returned (devintr h ext s) = Some 1)
    \<and> (irq \<noteq> 0 \<and> returns ext
          \<longrightarrow> new_calls s (devintr h ext s)
                = [Devintr, Plic_claim] @ isr_calls h irq @ [Plic_complete irq]
              \<and> returned (devintr h ext s) = Some 1)"
proof -
  define sA where "sA = (log Plic_claim (log Devintr s))\<lparr>mach := m1\<rparr>"
  let ?isr = "if irq = UART0_IRQ h then call ext Uartintr sA
             else if irq = VIRTIO0_IRQ h \<or> irq = VIRTIO1_IRQ h then
               call ext (Virtio_disk_intr (irq - VIRTIO0_IRQ h)) sA
             else Ret 0 sA"
  have c0: "call ext Plic_claim (log Devintr s) = Ret irq sA"
    using cl by (simp add: call_Ret sA_def)
  have dv: "devintr h ext s =
      seq ?isr (\<lambda>_ s2.
        seq (if irq \<noteq> 0 then call ext (Plic_complete irq) s2 else Ret 0 s2) (\<lambda>_ s3.
        Ret 1 s3))"
    using x by (simp add: devintr_def Let_def c0)
  have tA: "map fst (trace sA) = map fst (trace s) @ [Devintr, Plic_claim]"
    by (simp add: sA_def)
  have zero: "new_calls s (devintr h ext s) = [Devintr, Plic_claim]
              \<and> returned (devintr h ext s) = Some 1"
    if "irq = 0 \<and> UART0_IRQ h \<noteq> 0 \<and> VIRTIO0_IRQ h \<noteq> 0 \<and> VIRTIO1_IRQ h \<noteq> 0"
    using that by (auto simp: dv new_calls_alt tA)
  have nonzero: "new_calls s (devintr h ext s)
                = [Devintr, Plic_claim] @ isr_calls h irq @ [Plic_complete irq]
              \<and> returned (devintr h ext s) = Some 1"
    if nz: "irq \<noteq> 0" and ret: "returns ext"
  proof -
    obtain rI sI where isr: "?isr = Ret rI sI"
      and tI: "map fst (trace sI) = map fst (trace sA) @ isr_calls h irq"
    proof (cases "irq = UART0_IRQ h")
      case True
      obtain r m' where "call ext Uartintr sA = Ret r ((log Uartintr sA)\<lparr>mach := m'\<rparr>)"
        using ret by (rule returns_call)
      with True have "?isr = Ret r ((log Uartintr sA)\<lparr>mach := m'\<rparr>)"
        by simp
      moreover have "map fst (trace ((log Uartintr sA)\<lparr>mach := m'\<rparr>))
          = map fst (trace sA) @ isr_calls h irq"
        using True by (simp add: isr_calls_def)
      ultimately show ?thesis by (rule that)
    next
      case u: False
      show ?thesis
      proof (cases "irq = VIRTIO0_IRQ h \<or> irq = VIRTIO1_IRQ h")
        case True
        let ?c = "Virtio_disk_intr (irq - VIRTIO0_IRQ h)"
        obtain r m' where "call ext ?c sA = Ret r ((log ?c sA)\<lparr>mach := m'\<rparr>)"
          using ret by (rule returns_call)
        with u True have "?isr = Ret r ((log ?c sA)\<lparr>mach := m'\<rparr>)"
          by simp
        moreover have "map fst (trace ((log ?c sA)\<lparr>mach := m'\<rparr>))
            = map fst (trace sA) @ isr_calls h irq"
          using u True by (simp add: isr_calls_def)
        ultimately show ?thesis by (rule that)
      next
        case False
        with u have "?isr = Ret 0 sA"
          by simp
        moreover have "map fst (trace sA) = map fst (trace sA) @ isr_calls h irq"
          using u False by (simp add: isr_calls_def)
        ultimately show ?thesis by (rule that)
      qed
    qed
    let ?c = "Plic_complete irq"
    obtain rC mC where cc: "call ext ?c sI = Ret rC ((log ?c sI)\<lparr>mach := mC\<rparr>)"
      using ret by (rule returns_call)
    have "devintr h ext s = Ret 1 ((log ?c sI)\<lparr>mach := mC\<rparr>)"
      unfolding dv isr using nz by (simp add: cc)
    then show ?thesis
      by (simp add: new_calls_alt tI tA)
  qed
  from zero nonzero show ?thesis by blast
qed

text \<open>
  C7 on the sample platform: identifier 0, the UART's identifier 10, and identifier 7,
  which is no device's.
\<close>

theorem devintr_claim_witness:
  "new_calls (start (sample_machine\<lparr>scause := 0x8000000000000009\<rparr>))
       (devintr xv6_hdr ext_ok (start (sample_machine\<lparr>scause := 0x8000000000000009\<rparr>)))
     = [Devintr, Plic_claim]
   \<and> returned (devintr xv6_hdr ext_ok (start (sample_machine\<lparr>scause := 0x8000000000000009\<rparr>)))
     = Some 1
   \<and> new_calls (start (sample_machine\<lparr>scause := 0x8000000000000009\<rparr>))
       (devintr xv6_hdr (ext_irq 10) (start (sample_machine\<lparr>scause := 0x8000000000000009\<rparr>)))
     = [Devintr, Plic_claim, Uartintr, Plic_complete 10]
   \<and> new_calls (start (sample_machine\<lparr>scause := 0x8000000000000009\<rparr>))
       (devintr xv6_hdr (ext_irq 7) (start (sample_machine\<lparr>scause := 0x8000000000000009\<rparr>)))
     = [Devintr, Plic_claim, Plic_complete 7]
   \<and> returned (devintr xv6_hdr (ext_irq 7) (start (sample_machine\<lparr>scause := 0x8000000000000009\<rparr>)))
     = Some 1"
  using
    devintr_claim [where s = "start (sample_machine\<lparr>scause := 0x8000000000000009\<rparr>)"
      and h = xv6_hdr and ext = ext_ok and irq = 0
      and ?m1.0 = "sample_machine\<lparr>scause := 0x8000000000000009\<rparr>"]
    devintr_claim [where s = "start (sample_machine\<lparr>scause := 0x8000000000000009\<rparr>)"
      and h = xv6_hdr and ext = "ext_irq 10" and irq = 10
      and ?m1.0 = "sample_machine\<lparr>scause := 0x8000000000000009\<rparr>"]
    devintr_claim [where s = "start (sample_machine\<lparr>scause := 0x8000000000000009\<rparr>)"
      and h = xv6_hdr and ext = "ext_irq 7" and irq = 7
      and ?m1.0 = "sample_machine\<lparr>scause := 0x8000000000000009\<rparr>"]
  by (simp add: start_def sample_machine_def xv6_hdr_def returns_def ext_ok_def ext_irq_def
      ext_val_def isr_calls_def)

text \<open>
  C8, as the code has it. \<^verbatim>\<open>ticks\<close> is a 32-bit unsigned counter and
  \<^verbatim>\<open>ticks++\<close> wraps. Nothing but clockintr writing the counter: every clockintr
  that returns leaves it at its old value plus 1 modulo \<open>2^32\<close>, and when the
  collaborators return and the watchdog has not expired once both locks are taken,
  clockintr does return. The same holds of devintr on the timer interrupt on the
  timekeeping core (\<^verbatim>\<open>cpuid() == 0\<close>); on another core devintr returns 2 and leaves
  the counter alone. After \<open>n\<close> timer interrupts on the timekeeping core, the run
  either halts in the watchdog's \<^verbatim>\<open>panic\<close> or returns with the counter at the initial
  value plus \<open>n\<close> modulo \<open>2^32\<close>, which is the initial value plus \<open>n\<close> exactly
  as long as that stays below \<open>2^32\<close>; with the watchdog off and left off it returns.
\<close>

theorem tick_counter_steps:
  assumes k: "keeps_ticks ext" and e: "\<forall>m. ticks (env m) = ticks m"
  shows "(clockintr ext s = Ret u s1 \<longrightarrow> ticks (mach s1) = ticks (mach s) + 1)
    \<and> (cpuid_is_zero ext \<and> timer_events h ext env n s = Ret w s2
         \<longrightarrow> ticks (mach s2) = ticks (mach s) + of_nat n
           \<and> (unat (ticks (mach s)) + n < 2 ^ 32
                \<longrightarrow> unat (ticks (mach s2)) = unat (ticks (mach s)) + n))
    \<and> (cpuid_not_zero ext \<and> timer_events h ext env n s = Ret w s2
         \<longrightarrow> ticks (mach s2) = ticks (mach s))
    \<and> (returns ext \<longrightarrow>
         (ext (Acquire Watchdog_lock) (mach s) = Some (r1, m1)
            \<and> ext (Acquire Tickslock) m1 = Some (r2, m2) \<and> \<not> watchdog_expired m2
          \<longrightarrow> returned (clockintr ext s) = Some ()
            \<and> ticks (mach (final (clockintr ext s))) = ticks (mach s) + 1)
       \<and> (scause (mach s) = 0x8000000000000001 \<and> ext Cpuid (mach s) = Some (0, mc)
            \<and> ext (Acquire Watchdog_lock) mc = Some (r1, m1)
            \<and> ext (Acquire Tickslock) m1 = Some (r2, m2) \<and> \<not> watchdog_expired m2
          \<longrightarrow> returned (devintr h ext s) = Some 2
            \<and> ticks (mach (final (devintr h ext s))) = ticks (mach s) + 1)
       \<and> (scause (mach s) = 0x8000000000000001 \<and> ext Cpuid (mach s) = Some (cpu, mc)
            \<and> cpu \<noteq> 0
          \<longrightarrow> returned (devintr h ext s) = Some 2
            \<and> ticks (mach (final (devintr h ext s))) = ticks (mach s))
       \<and> (cpuid_is_zero ext \<and> stopped_with (timer_events h ext env n s) \<noteq> Some Panicked
          \<longrightarrow> returned (timer_events h ext env n s) = Some 2
            \<and> ticks (mach (final (timer_events h ext env n s))) = ticks (mach s) + of_nat n
            \<and> (unat (ticks (mach s)) + n < 2 ^ 32
                 \<longrightarrow> unat (ticks (mach (final (timer_events h ext env n s))))
                     = unat (ticks (mach s)) + n))
       \<and> (cpuid_is_zero ext \<and> keeps_watchdog_off ext
            \<and> (\<forall>m. watchdog_time m = 0 \<longrightarrow> watchdog_time (env m) = 0)
            \<and> watchdog_time (mach s) = 0
          \<longrightarrow> returned (timer_events h ext env n s) = Some 2
            \<and> ticks (mach (final (timer_events h ext env n s))) = ticks (mach s) + of_nat n)
       \<and> (cpuid_not_zero ext
          \<longrightarrow> returned (timer_events h ext env n s) = Some 2
            \<and> ticks (mach (final (timer_events h ext env n s))) = ticks (mach s)))"
proof -
  let ?run = "timer_events h ext env n s"
  have ex: "unat (b :: uint) = unat a + n" if "b = a + of_nat n" "unat a + n < 2 ^ 32" for a b
    using that by (simp add: unat_word_ariths unat_of_nat)
  have p1: "ticks (mach s1) = ticks (mach s) + 1" if "clockintr ext s = Ret u s1"
    using k that by (rule clockintr_ticks)
  have p2: "ticks (mach s2) = ticks (mach s) + of_nat n
           \<and> (unat (ticks (mach s)) + n < 2 ^ 32
                \<longrightarrow> unat (ticks (mach s2)) = unat (ticks (mach s)) + n)"
    if "cpuid_is_zero ext" "?run = Ret w s2"
    using timer_events_ticks [OF k e that(2)] that(1) ex by blast
  have p3: "ticks (mach s2) = ticks (mach s)" if "cpuid_not_zero ext" "?run = Ret w s2"
    using timer_events_ticks [OF k e that(2)] that(1) by blast
  have fin: "ticks (mach (final ?run)) = ticks (mach s) + of_nat n"
    if "cpuid_is_zero ext" "returned ?run = Some 2"
  proof -
    from that(2) obtain t where r: "?run = Ret 2 t" by (rule returned_SomeE)
    from timer_events_ticks [OF k e r] that(1) r show ?thesis by simp
  qed
  have fin0: "ticks (mach (final ?run)) = ticks (mach s)"
    if "cpuid_not_zero ext" "returned ?run = Some 2"
  proof -
    from that(2) obtain t where r: "?run = Ret 2 t" by (rule returned_SomeE)
    from timer_events_ticks [OF k e r] that(1) r show ?thesis by simp
  qed
  have q1: "returned (clockintr ext s) = Some ()
          \<and> ticks (mach (final (clockintr ext s))) = ticks (mach s) + 1"
    if "returns ext" "ext (Acquire Watchdog_lock) (mach s) = Some (r1, m1)"
      "ext (Acquire Tickslock) m1 = Some (r2, m2)" "\<not> watchdog_expired m2"
    using that(1) k that(2-) by (rule clockintr_returns)
  have q2: "returned (devintr h ext s) = Some 2
          \<and> ticks (mach (final (devintr h ext s))) = ticks (mach s) + 1"
    if ret: "returns ext"
      and a: "scause (mach s) = 0x8000000000000001" "ext Cpuid (mach s) = Some (0, mc)"
      "ext (Acquire Watchdog_lock) mc = Some (r1, m1)"
      "ext (Acquire Tickslock) m1 = Some (r2, m2)" "\<not> watchdog_expired m2"
    using devintr_timer_returns [where ext = ext and h = h, OF ret k a(1) a(2),
        of r1 m1 r2 m2] a
    by simp
  have q3: "returned (devintr h ext s) = Some 2
          \<and> ticks (mach (final (devintr h ext s))) = ticks (mach s)"
    if ret: "returns ext"
      and a: "scause (mach s) = 0x8000000000000001" "ext Cpuid (mach s) = Some (cpu, mc)"
      "cpu \<noteq> 0"
    using devintr_timer_returns [where ext = ext and h = h, OF ret k a(1) a(2)] a
    by simp
  have q4: "returned ?run = Some 2
          \<and> ticks (mach (final ?run)) = ticks (mach s) + of_nat n
          \<and> (unat (ticks (mach s)) + n < 2 ^ 32
               \<longrightarrow> unat (ticks (mach (final ?run))) = unat (ticks (mach s)) + n)"
    if ret: "returns ext" and z: "cpuid_is_zero ext"
      and np: "stopped_with ?run \<noteq> Some Panicked"
  proof -
    have r: "returned ?run = Some 2"
      using ret np by (rule timer_events_total)
    from fin [OF z r] r ex show ?thesis by blast
  qed
  have q5: "returned ?run = Some 2
          \<and> ticks (mach (final ?run)) = ticks (mach s) + of_nat n"
    if ret: "returns ext" and z: "cpuid_is_zero ext" and off: "keeps_watchdog_off ext"
      and eo: "\<forall>m. watchdog_time m = 0 \<longrightarrow> watchdog_time (env m) = 0"
      and w0: "watchdog_time (mach s) = 0"
  proof -
    have r: "returned ?run = Some 2"
      using ret off eo w0 by (rule timer_events_off)
    from fin [OF z r] r show ?thesis by simp
  qed
  have q6: "returned ?run = Some 2 \<and> ticks (mach (final ?run)) = ticks (mach s)"
    if ret: "returns ext" and nz: "cpuid_not_zero ext"
  proof -
    have r: "returned ?run = Some 2"
      using ret nz by (rule timer_events_other_core)
    from fin0 [OF nz r] r show ?thesis by simp
  qed
  show ?thesis
  proof (intro conjI impI, goal_cases)
    case 1
    with p1 show ?case by blast
  next
    case 2
    with p2 show ?case by blast
  next
    case 3
    with p2 show ?case by blast
  next
    case 4
    with p3 show ?case by blast
  next
    case 5
    with q1 show ?case by blast
  next
    case 6
    with q1 show ?case by blast
  next
    case 7
    with q2 show ?case by blast
  next
    case 8
    with q2 show ?case by blast
  next
    case 9
    with q3 show ?case by blast
  next
    case 10
    with q3 show ?case by blast
  next
    case 11
    with q4 show ?case by blast
  next
    case 12
    with q4 show ?case by blast
  next
    case 13
    with q4 show ?case by blast
  next
    case 14
    with q5 show ?case by blast
  next
    case 15
    with q5 show ?case by blast
  next
    case 16
    with q6 show ?case by blast
  next
    case 17
    with q6 show ?case by blast
  qed
qed

text \<open>
  C8 on the sample machine: one tick, one timer interrupt on core 0 and on core 1, and
  three timer interrupts on core 0 and on core 1.
\<close>

theorem tick_counter_steps_witness:
  "returned (clockintr ext_ok (start sample_machine)) = Some ()
   \<and> ticks (mach (final (clockintr ext_ok (start sample_machine)))) = 6
   \<and> returned (devintr xv6_hdr ext_ok (start (sample_machine\<lparr>scause := 0x8000000000000001\<rparr>)))
       = Some 2
   \<and> ticks (mach (final
       (devintr xv6_hdr ext_ok (start (sample_machine\<lparr>scause := 0x8000000000000001\<rparr>))))) = 6
   \<and> returned (devintr xv6_hdr (ext_val (\<lambda>c. 1))
        (start (sample_machine\<lparr>scause := 0x8000000000000001\<rparr>))) = Some 2
   \<and> ticks (mach (final (devintr xv6_hdr (ext_val (\<lambda>c. 1))
        (start (sample_machine\<lparr>scause := 0x8000000000000001\<rparr>))))) = 5
   \<and> returned (timer_events xv6_hdr ext_ok (\<lambda>m. m) 3 (start sample_machine)) = Some 2
   \<and> ticks (mach (final (timer_events xv6_hdr ext_ok (\<lambda>m. m) 3 (start sample_machine)))) = 8
   \<and> unat (ticks (mach (final (timer_events xv6_hdr ext_ok (\<lambda>m. m) 3 (start sample_machine))))) = 8
   \<and> returned (timer_events xv6_hdr (ext_val (\<lambda>c. 1)) (\<lambda>m. m) 3 (start sample_machine)) = Some 2
   \<and> ticks (mach (final (timer_events xv6_hdr (ext_val (\<lambda>c. 1)) (\<lambda>m. m) 3 (start sample_machine)))) = 5"
proof -
  let ?s = "start sample_machine"
  let ?t = "start (sample_machine\<lparr>scause := 0x8000000000000001\<rparr>)"
  let ?id = "\<lambda>m::machine. m"
  let ?one = "ext_val (\<lambda>c. 1)"
  have k0: "keeps_ticks ext_ok" and k1: "keeps_ticks ?one"
    by (simp_all add: keeps_ticks_def ext_ok_def ext_val_def)
  have r0: "returns ext_ok" and r1: "returns ?one"
    by (simp_all add: returns_def ext_ok_def ext_val_def)
  have z: "cpuid_is_zero ext_ok" and n: "cpuid_not_zero ?one"
    by (simp_all add: cpuid_is_zero_def cpuid_not_zero_def ext_ok_def ext_val_def)
  have off: "keeps_watchdog_off ext_ok"
    by (simp add: keeps_watchdog_off_def ext_ok_def ext_val_def)
  have e: "\<forall>m. ticks (?id m) = ticks m" by simp
  have three: "(3::nat) = Suc (Suc (Suc 0))" by simp
  have np: "stopped_with (timer_events xv6_hdr ext_ok ?id 3 ?s) \<noteq> Some Panicked"
    unfolding three ext_ok_def using timer_events_sample [THEN returned_not_stopped] by simp
  have nx: "\<not> watchdog_expired sample_machine"
    "\<not> watchdog_expired (sample_machine\<lparr>scause := 0x8000000000000001\<rparr>)"
    by (simp_all add: watchdog_expired_def sample_machine_def)
  from
    tick_counter_steps [OF k0 e, where s = ?s and h = xv6_hdr and n = 3
      and ?r1.0 = 0 and ?m1.0 = sample_machine and ?r2.0 = 0 and ?m2.0 = sample_machine]
    tick_counter_steps [OF k0 e, where s = ?t and h = xv6_hdr and n = 0
      and mc = "sample_machine\<lparr>scause := 0x8000000000000001\<rparr>"
      and ?r1.0 = 0 and ?m1.0 = "sample_machine\<lparr>scause := 0x8000000000000001\<rparr>"
      and ?r2.0 = 0 and ?m2.0 = "sample_machine\<lparr>scause := 0x8000000000000001\<rparr>"]
    tick_counter_steps [OF k1 e, where s = ?t and h = xv6_hdr and n = 0 and cpu = 1
      and mc = "sample_machine\<lparr>scause := 0x8000000000000001\<rparr>"]
    tick_counter_steps [OF k1 e, where s = ?s and h = xv6_hdr and n = 3]
    r0 r1 z n off np nx
  show ?thesis
    by (simp add: start_def sample_machine_def ext_ok_def ext_val_def)
qed

text \<open>
  C8 as stated fails: at \<open>ticks = 0xFFFFFFFF\<close> with the watchdog off, clockintr
  returns and the counter has gone down, to 0.
\<close>

theorem tick_counter_wraps:
  "stopped_with (clockintr ext_ok (start (sample_machine\<lparr>ticks := 0xFFFFFFFF\<rparr>))) = None
   \<and> ticks (mach (final (clockintr ext_ok (start (sample_machine\<lparr>ticks := 0xFFFFFFFF\<rparr>)))))
       < ticks (mach (start (sample_machine\<lparr>ticks := 0xFFFFFFFF\<rparr>)))
   \<and> unat (ticks (mach (final (clockintr ext_ok (start (sample_machine\<lparr>ticks := 0xFFFFFFFF\<rparr>))))))
       \<noteq> unat (ticks (mach (start (sample_machine\<lparr>ticks := 0xFFFFFFFF\<rparr>)))) + 1"
  by (simp add: clockintr_def call_def ext_ok_def ext_val_def start_def sample_machine_def
      modify_def log_def)

text \<open>
  C9, as the code has it. The cause code \<open>0x2000000000000009\<close> has bit 61 set, not
  the interrupt bit 63: scause_desc reads it as an exception code above 63 and yields
  \<^verbatim>\<open><reserved for future standard use>\<close>. The label
  \<^verbatim>\<open>supervisor external interrupt\<close> is that of \<open>0x8000000000000009\<close> (interrupt bit
  set, cause 9). Cause code 40 yields \<^verbatim>\<open><reserved for future standard use>\<close>.
\<close>

theorem scause_desc_labels:
  "scause_desc 0x8000000000000009 = ''supervisor external interrupt''
   \<and> scause_desc 0x2000000000000009 = ''<reserved for future standard use>''
   \<and> scause_desc 40 = ''<reserved for future standard use>''"
  by (simp add: scause_desc_def intr_desc_def nointr_desc_def)

text \<open>C9 as stated fails: the label of \<open>0x2000000000000009\<close> is another one.\<close>

theorem scause_desc_counterexample:
  "scause_desc 0x2000000000000009 \<noteq> ''supervisor external interrupt''"
  by (simp add: scause_desc_def nointr_desc_def)

text \<open>
  C10. devintr takes the external-interrupt path exactly when the interrupt bit of the
  cause is set and its low 8 bits are 9, whatever the bits in between: then the call
  after devintr's entry is plic_claim, devintr returns 1 if it returns, and it returns
  when the collaborators do. For every other cause no call of the run is plic_claim
  and devintr does not return 1; unless the cause is the timer's
  \<open>0x8000000000000001\<close>, devintr makes no call at all and returns 0.
\<close>

theorem devintr_external_low_byte:
  "(take 2 (new_calls s (devintr h ext s)) = [Devintr, Plic_claim])
     = (scause (mach s) AND 0x8000000000000000 \<noteq> 0 \<and> scause (mach s) AND 0xff = 9)
   \<and> (scause (mach s) AND 0x8000000000000000 \<noteq> 0 \<and> scause (mach s) AND 0xff = 9
        \<longrightarrow> returned (devintr h ext s) \<in> {None, Some 1}
          \<and> (returns ext \<longrightarrow> returned (devintr h ext s) = Some 1))
   \<and> (\<not> (scause (mach s) AND 0x8000000000000000 \<noteq> 0 \<and> scause (mach s) AND 0xff = 9)
        \<longrightarrow> list_all (\<lambda>c. c \<noteq> Plic_claim) (new_calls s (devintr h ext s))
          \<and> returned (devintr h ext s) \<noteq> Some 1
          \<and> (scause (mach s) \<noteq> 0x8000000000000001
               \<longrightarrow> new_calls s (devintr h ext s) = [Devintr]
                 \<and> returned (devintr h ext s) = Some 0))"
proof (cases "scause (mach s) AND 0x8000000000000000 \<noteq> 0 \<and> scause (mach s) AND 0xff = 9")
  case True
  from devintr_external_path [OF True, of h ext] True show ?thesis by simp
next
  case nx: False
  show ?thesis
  proof (cases "scause (mach s) = 0x8000000000000001")
    case True
    from devintr_timer_path [OF True, of h ext] nx True show ?thesis by auto
  next
    case False
    from devintr_unrecognized [OF nx False, of h ext] nx False show ?thesis
      by (simp add: new_calls_alt)
  qed
qed

text \<open>
  C10 at the interrupt cause \<open>0x109\<close>, at the exception cause 9, at the interrupt
  cause 8 and at the timer's cause.
\<close>

theorem devintr_external_low_byte_witness:
  "take 2 (new_calls (start (sample_machine\<lparr>scause := 0x8000000000000109\<rparr>))
       (devintr xv6_hdr ext_ok (start (sample_machine\<lparr>scause := 0x8000000000000109\<rparr>))))
     = [Devintr, Plic_claim]
   \<and> returned (devintr xv6_hdr ext_ok (start (sample_machine\<lparr>scause := 0x8000000000000109\<rparr>)))
     = Some 1
   \<and> new_calls (start (sample_machine\<lparr>scause := 0x9\<rparr>))
       (devintr xv6_hdr ext_ok (start (sample_machine\<lparr>scause := 0x9\<rparr>))) = [Devintr]
   \<and> returned (devintr xv6_hdr ext_ok (start (sample_machine\<lparr>scause := 0x9\<rparr>))) = Some 0
   \<and> new_calls (start (sample_machine\<lparr>scause := 0x8000000000000008\<rparr>))
       (devintr xv6_hdr ext_ok (start (sample_machine\<lparr>scause := 0x8000000000000008\<rparr>)))
     = [Devintr]
   \<and> returned (devintr xv6_hdr ext_ok (start (sample_machine\<lparr>scause := 0x8000000000000008\<rparr>)))
     = Some 0
   \<and> list_all (\<lambda>c. c \<noteq> Plic_claim)
       (new_calls (start (sample_machine\<lparr>scause := 0x8000000000000001\<rparr>))
         (devintr xv6_hdr ext_ok (start (sample_machine\<lparr>scause := 0x8000000000000001\<rparr>))))
   \<and> returned (devintr xv6_hdr ext_ok (start (sample_machine\<lparr>scause := 0x8000000000000001\<rparr>)))
     \<noteq> Some 1"
  using
    devintr_external_low_byte
      [of "start (sample_machine\<lparr>scause := 0x8000000000000109\<rparr>)" xv6_hdr ext_ok]
    devintr_external_low_byte
      [of "start (sample_machine\<lparr>scause := 0x9\<rparr>)" xv6_hdr ext_ok]
    devintr_external_low_byte
      [of "start (sample_machine\<lparr>scause := 0x8000000000000008\<rparr>)" xv6_hdr ext_ok]
    devintr_external_low_byte
      [of "start (sample_machine\<lparr>scause := 0x8000000000000001\<rparr>)" xv6_hdr ext_ok]
  by (simp add: start_def sample_machine_def returns_def ext_ok_def ext_val_def)

end
